theory Spec2Isabelle
  imports Complex_Main
begin

section \<open>Cells, strings and the environment\<close>

text \<open>
  The pipeline of \<^verbatim>\<open>etl_pipeline.py\<close> works on a pandas data frame read from a CSV file.
  A data frame is a list of rows, a row a record of its columns.  The text columns hold a
  string or are missing (\<open>None\<close> for pandas' NaN); the numeric columns hold what
  \<^verbatim>\<open>read_csv\<close> leaves there: NaN, a number, or a string that was not a number; the date
  column holds NaN/NaT, a string, or (after the incremental extraction has converted the
  column) a timestamp.  Numbers are rationals, timestamps integers (an instant on some
  fixed scale).
\<close>

datatype num_cell = NNaN | NNum rat | NStr string

datatype date_cell = DNaT | DStr string | DTs int

datatype exn = Exception string | TypeError string | ZeroDivisionError string

fun str_exn :: "exn \<Rightarrow> string" where
  "str_exn (Exception m) = m"
| "str_exn (TypeError m) = m"
| "str_exn (ZeroDivisionError m) = m"

record raw_row =
  InvoiceNo :: "string option"
  StockCode :: "string option"
  Description :: "string option"
  Quantity :: num_cell
  InvoiceDate :: date_cell
  UnitPrice :: num_cell
  CustomerID :: num_cell
  Country :: "string option"

text \<open>
  Everything the run reads from outside is a field of the environment: the parsers of
  pandas (\<^verbatim>\<open>to_datetime\<close> and \<^verbatim>\<open>to_numeric\<close> on a string, \<open>None\<close> where
  \<^verbatim>\<open>errors='coerce'\<close> gives NaT/NaN), the rendering of a timestamp by \<^verbatim>\<open>str\<close>, the
  content of the CSV file (\<open>None\<close> when the file is absent or cannot be read), whether
  \<^verbatim>\<open>create_database_connection\<close> returns a connection or raises, which statements the
  database executes (by the position of the statement on the connection), and the batch
  id, the \<^verbatim>\<open>'%Y%m%d_%H%M%S'\<close> rendering of the start instant.  The wall-clock columns
  (\<^verbatim>\<open>loaded_at\<close>, \<^verbatim>\<open>quarantined_at\<close>, \<^verbatim>\<open>execution_timestamp\<close>, \<^verbatim>\<open>batch_start\<close>,
  \<^verbatim>\<open>batch_end\<close>, the duration) are left out.
\<close>

record env =
  parse_datetime :: "string \<Rightarrow> int option"
  parse_numeric :: "string \<Rightarrow> rat option"
  format_timestamp :: "int \<Rightarrow> string"
  csv_file :: "raw_row list option"
  connect_ok :: bool
  sql_ok :: "nat \<Rightarrow> bool"
  run_batch_id :: string

definition to_datetime :: "env \<Rightarrow> date_cell \<Rightarrow> int option" where
  "to_datetime e c = (case c of DNaT \<Rightarrow> None | DStr s \<Rightarrow> parse_datetime e s | DTs t \<Rightarrow> Some t)"

definition to_numeric :: "env \<Rightarrow> num_cell \<Rightarrow> rat option" where
  "to_numeric e c = (case c of NNaN \<Rightarrow> None | NNum x \<Rightarrow> Some x | NStr s \<Rightarrow> parse_numeric e s)"

definition str_date_cell :: "env \<Rightarrow> date_cell \<Rightarrow> string" where
  "str_date_cell e c = (case c of DNaT \<Rightarrow> ''nan'' | DStr s \<Rightarrow> s | DTs t \<Rightarrow> format_timestamp e t)"

text \<open>\<^verbatim>\<open>.astype(int)\<close> on a float column truncates towards zero.\<close>

definition astype_int :: "rat \<Rightarrow> int" where
  "astype_int x = (if 0 \<le> x then \<lfloor>x\<rfloor> else - \<lfloor>- x\<rfloor>)"

text \<open>
  \<^verbatim>\<open>.astype('Int64')\<close> keeps NaN as the missing value and raises a TypeError on a float
  that is not a whole number.
\<close>

definition int64_castable :: "rat option \<Rightarrow> bool" where
  "int64_castable v = (case v of None \<Rightarrow> True | Some x \<Rightarrow> of_int \<lfloor>x\<rfloor> = x)"

definition astype_Int64 :: "rat option \<Rightarrow> int option" where
  "astype_Int64 v = map_option floor v"

text \<open>
  Strings.  The file is read as ISO-8859-1, so a character is one byte.  \<^verbatim>\<open>str.strip\<close>
  removes the white space of that range at both ends; the case mappings are modelled on
  the ASCII letters, other characters are left as they are.
\<close>

definition isspace :: "char \<Rightarrow> bool" where
  "isspace c = ((of_char c :: nat) \<in> {9, 10, 11, 12, 13, 28, 29, 30, 31, 32, 133, 160})"

definition strip :: "string \<Rightarrow> string" where
  "strip s = rev (dropWhile isspace (rev (dropWhile isspace s)))"

definition lower_letters :: string where
  "lower_letters = ''abcdefghijklmnopqrstuvwxyz''"

definition upper_letters :: string where
  "upper_letters = ''ABCDEFGHIJKLMNOPQRSTUVWXYZ''"

definition upper_char :: "char \<Rightarrow> char" where
  "upper_char c = (case map_of (zip lower_letters upper_letters) c of None \<Rightarrow> c | Some u \<Rightarrow> u)"

definition lower_char :: "char \<Rightarrow> char" where
  "lower_char c = (case map_of (zip upper_letters lower_letters) c of None \<Rightarrow> c | Some l \<Rightarrow> l)"

definition is_cased :: "char \<Rightarrow> bool" where
  "is_cased c = (c \<in> set lower_letters \<or> c \<in> set upper_letters)"

definition upper :: "string \<Rightarrow> string" where
  "upper s = map upper_char s"

text \<open>\<^verbatim>\<open>str.title\<close>: a letter after a letter is lowered, any other letter is raised.\<close>

fun title_from :: "bool \<Rightarrow> string \<Rightarrow> string" where
  "title_from prev [] = []"
| "title_from prev (c # cs) =
     (if prev then lower_char c else upper_char c) # title_from (is_cased c) cs"

definition title :: "string \<Rightarrow> string" where
  "title s = title_from False s"

definition startswith :: "string \<Rightarrow> string \<Rightarrow> bool" where
  "startswith s p = (take (length p) s = p)"

text \<open>\<^verbatim>\<open>.astype(str)\<close> on a text column renders the missing value as \<^verbatim>\<open>nan\<close>.\<close>

definition astype_str :: "string option \<Rightarrow> string" where
  "astype_str v = (case v of None \<Rightarrow> ''nan'' | Some s \<Rightarrow> s)"

definition fillna :: "'a \<Rightarrow> 'a option \<Rightarrow> 'a" where
  "fillna d v = (case v of None \<Rightarrow> d | Some x \<Rightarrow> x)"

section \<open>The columns added by the transformation\<close>

record dated_row = raw_row +
  invoice_date :: "int option"

record typed_row = dated_row +
  quantity :: int
  unit_price :: rat
  customer_id :: "int option"
  line_total :: rat

record std_row = typed_row +
  invoice_no :: string
  stock_code :: string
  description :: string
  country :: string

record flagged_row = std_row +
  is_cancellation :: bool
  is_adjustment :: bool
  is_guest_purchase :: bool
  is_valid_sale :: bool
  is_return :: bool

record staged_row = flagged_row +
  batch_id :: string
  source_file :: string

section \<open>DataQualityTracker\<close>

record metric =
  m_batch_id :: string
  m_rule_name :: string
  rule_category :: string
  rows_processed :: int
  rows_passed :: int
  rows_quarantined :: int
  rows_dropped :: int
  m_notes :: string

text \<open>
  A quarantine record.  \<^verbatim>\<open>raw_row_json\<close> is \<^verbatim>\<open>json.dumps\<close> of the dictionary of the whole
  row, every column the frame has when the row is quarantined; the model keeps that
  dictionary, the row itself.
\<close>

record quarantine_record =
  q_batch_id :: string
  q_rule_name :: string
  dq_reason :: string
  original_invoice_no :: "string option"
  original_stock_code :: "string option"
  original_description :: "string option"
  original_quantity :: num_cell
  original_invoice_date :: string
  original_unit_price :: num_cell
  original_customer_id :: num_cell
  original_country :: "string option"
  raw_row_json :: typed_row

record tracker =
  tracker_batch_id :: string
  metrics :: "metric list"
  quarantine_records :: "quarantine_record list"

definition DataQualityTracker :: "string \<Rightarrow> tracker" where
  "DataQualityTracker b = \<lparr>tracker_batch_id = b, metrics = [], quarantine_records = []\<rparr>"

definition add_metric ::
  "tracker \<Rightarrow> string \<Rightarrow> string \<Rightarrow> int \<Rightarrow> int \<Rightarrow> int \<Rightarrow> int \<Rightarrow> string \<Rightarrow> tracker" where
  "add_metric t rule category processed passed quarantined dropped note =
     t\<lparr>metrics := metrics t @
        [\<lparr>m_batch_id = tracker_batch_id t, m_rule_name = rule, rule_category = category,
          rows_processed = processed, rows_passed = passed,
          rows_quarantined = quarantined, rows_dropped = dropped, m_notes = note\<rparr>]\<rparr>"

definition quarantine_entry :: "env \<Rightarrow> string \<Rightarrow> string \<Rightarrow> string \<Rightarrow> typed_row \<Rightarrow> quarantine_record" where
  "quarantine_entry e b rule reason row =
     \<lparr>q_batch_id = b, q_rule_name = rule, dq_reason = reason,
      original_invoice_no = InvoiceNo row,
      original_stock_code = StockCode row,
      original_description = Description row,
      original_quantity = Quantity row,
      original_invoice_date = str_date_cell e (InvoiceDate row),
      original_unit_price = UnitPrice row,
      original_customer_id = CustomerID row,
      original_country = Country row,
      raw_row_json = row\<rparr>"

definition quarantine_rows :: "env \<Rightarrow> tracker \<Rightarrow> typed_row list \<Rightarrow> string \<Rightarrow> string \<Rightarrow> tracker" where
  "quarantine_rows e t df_quarantine rule reason =
     t\<lparr>quarantine_records := quarantine_records t @
        map (quarantine_entry e (tracker_batch_id t) rule reason) df_quarantine\<rparr>"

section \<open>transform\_data\<close>

subsection \<open>Type casting and calculations\<close>

definition add_invoice_date :: "env \<Rightarrow> raw_row \<Rightarrow> dated_row" where
  "add_invoice_date e r = raw_row.extend r (dated_row.fields (to_datetime e (InvoiceDate r)))"

definition add_numeric_columns :: "env \<Rightarrow> dated_row \<Rightarrow> typed_row" where
  "add_numeric_columns e r =
     (let q = astype_int (fillna 0 (to_numeric e (Quantity r)));
          p = fillna 0 (to_numeric e (UnitPrice r));
          c = astype_Int64 (to_numeric e (CustomerID r))
      in dated_row.extend r (typed_row.fields q p c (of_int q * p)))"

subsection \<open>The two shapes of a rule\<close>

text \<open>
  A quarantine rule: when the mask selects a row, the selected rows go to the tracker
  under the rule's name, the frame keeps the others, and one metric is added.
\<close>

definition quarantine_rule ::
  "env \<Rightarrow> (typed_row \<Rightarrow> bool) \<Rightarrow> string \<Rightarrow> string \<Rightarrow> string \<Rightarrow>
   typed_row list \<Rightarrow> tracker \<Rightarrow> typed_row list \<times> tracker" where
  "quarantine_rule e row_mask rule reason note df t =
     (let mask_sum = int (length (filter row_mask df))
      in if mask_sum > 0
         then let t1 = quarantine_rows e t (filter row_mask df) rule reason;
                  df' = filter (\<lambda>r. \<not> row_mask r) df
              in (df', add_metric t1 rule ''anomaly_detection''
                         (int (length df') + mask_sum) (int (length df')) mask_sum 0 note)
         else (df, t))"

text \<open>
  A drop rule: the frame is cut down, and when a row went one metric is added; the rows
  are not kept anywhere.
\<close>

definition drop_rule ::
  "('a list \<Rightarrow> 'a list) \<Rightarrow> string \<Rightarrow> string \<Rightarrow> 'a list \<Rightarrow> tracker \<Rightarrow> 'a list \<times> tracker" where
  "drop_rule keep rule note df t =
     (let before_len = int (length df);
          df' = keep df;
          removed = before_len - int (length df')
      in (df', if removed > 0
               then add_metric t rule ''data_integrity'' before_len (int (length df')) 0 removed note
               else t))"

subsection \<open>The rules, in the order of the source\<close>

definition remove_unparseable_dates :: "dated_row list \<Rightarrow> tracker \<Rightarrow> dated_row list \<times> tracker" where
  "remove_unparseable_dates =
     drop_rule (filter (\<lambda>r. invoice_date r \<noteq> None))
       ''remove_unparseable_dates'' ''DQ004: Unparseable InvoiceDate''"

definition suspicious_price_mask :: "typed_row \<Rightarrow> bool" where
  "suspicious_price_mask r = (unit_price r > 10000 \<and> \<bar>quantity r\<bar> < 100)"

definition zero_qty_mask :: "typed_row \<Rightarrow> bool" where
  "zero_qty_mask r = (quantity r = 0)"

definition neg_price_mask :: "typed_row \<Rightarrow> bool" where
  "neg_price_mask r = (unit_price r < 0)"

definition quarantine_suspicious_unit_price ::
  "env \<Rightarrow> typed_row list \<Rightarrow> tracker \<Rightarrow> typed_row list \<times> tracker" where
  "quarantine_suspicious_unit_price e =
     quarantine_rule e suspicious_price_mask ''quarantine_suspicious_unit_price''
       ''AN001: Unit price >$10K with low quantity'' ''AN001: Potential pricing errors''"

definition quarantine_zero_quantity ::
  "env \<Rightarrow> typed_row list \<Rightarrow> tracker \<Rightarrow> typed_row list \<times> tracker" where
  "quarantine_zero_quantity e =
     quarantine_rule e zero_qty_mask ''quarantine_zero_quantity''
       ''AN002: Quantity = 0'' ''AN002: Invalid zero quantity''"

definition quarantine_negative_unit_price ::
  "env \<Rightarrow> typed_row list \<Rightarrow> tracker \<Rightarrow> typed_row list \<times> tracker" where
  "quarantine_negative_unit_price e =
     quarantine_rule e neg_price_mask ''quarantine_negative_unit_price''
       ''AN003: Negative unit price'' ''AN003: Invalid negative price''"

text \<open>
  \<^verbatim>\<open>dropna(how='all')\<close> removes the rows in which every column is missing.  The columns
  \<^verbatim>\<open>quantity\<close>, \<^verbatim>\<open>unit_price\<close> and \<^verbatim>\<open>line_total\<close> were filled and are never missing.
\<close>

definition all_null :: "typed_row \<Rightarrow> bool" where
  "all_null r =
     (InvoiceNo r = None \<and> StockCode r = None \<and> Description r = None \<and> Quantity r = NNaN \<and>
      InvoiceDate r = DNaT \<and> UnitPrice r = NNaN \<and> CustomerID r = NNaN \<and> Country r = None \<and>
      invoice_date r = None \<and> customer_id r = None \<and> False)"

definition remove_all_null_rows :: "typed_row list \<Rightarrow> tracker \<Rightarrow> typed_row list \<times> tracker" where
  "remove_all_null_rows =
     drop_rule (filter (\<lambda>r. \<not> all_null r)) ''remove_all_null_rows'' ''DQ001: Completely empty rows''"

text \<open>\<^verbatim>\<open>drop_duplicates()\<close> compares all columns and keeps the first of equal rows.\<close>

fun drop_duplicates_from :: "'a list \<Rightarrow> 'a list \<Rightarrow> 'a list" where
  "drop_duplicates_from seen [] = []"
| "drop_duplicates_from seen (r # rs) =
     (if r \<in> set seen then drop_duplicates_from seen rs
      else r # drop_duplicates_from (r # seen) rs)"

definition drop_duplicates :: "'a list \<Rightarrow> 'a list" where
  "drop_duplicates df = drop_duplicates_from [] df"

definition remove_exact_duplicates :: "typed_row list \<Rightarrow> tracker \<Rightarrow> typed_row list \<times> tracker" where
  "remove_exact_duplicates =
     drop_rule drop_duplicates ''remove_exact_duplicates'' ''DQ002: Exact duplicate rows''"

text \<open>
  \<^verbatim>\<open>dropna(subset=critical_fields)\<close> with the critical fields \<^verbatim>\<open>InvoiceNo\<close>,
  \<^verbatim>\<open>StockCode\<close>, \<^verbatim>\<open>invoice_date\<close>, \<^verbatim>\<open>quantity\<close>, \<^verbatim>\<open>unit_price\<close>; the last two are
  never missing.  \<^verbatim>\<open>customer_id\<close> is not in the list.
\<close>

definition critical_present :: "typed_row \<Rightarrow> bool" where
  "critical_present r = (InvoiceNo r \<noteq> None \<and> StockCode r \<noteq> None \<and> invoice_date r \<noteq> None)"

definition remove_missing_critical :: "typed_row list \<Rightarrow> tracker \<Rightarrow> typed_row list \<times> tracker" where
  "remove_missing_critical =
     drop_rule (filter critical_present) ''remove_missing_critical''
       ''DQ003: Missing InvoiceNo/StockCode/Date/Qty/Price''"

subsection \<open>Standardization, business flags, metadata\<close>

definition standardize :: "typed_row \<Rightarrow> std_row" where
  "standardize r =
     typed_row.extend r
       (std_row.fields
          (upper (strip (astype_str (InvoiceNo r))))
          (upper (strip (astype_str (StockCode r))))
          (strip (fillna ''UNKNOWN PRODUCT'' (Description r)))
          (title (strip (fillna ''UNKNOWN'' (Country r)))))"

definition business_flags :: "std_row \<Rightarrow> flagged_row" where
  "business_flags r =
     (let canc = startswith (invoice_no r) ''C'';
          adj = (quantity r < 0 \<and> \<not> canc \<and> unit_price r = 0 \<and> customer_id r = None);
          guest = (customer_id r = None);
          valid = (quantity r > 0 \<and> unit_price r > 0 \<and> \<not> canc);
          ret = (quantity r < 0 \<and> \<not> adj)
      in std_row.extend r (flagged_row.fields canc adj guest valid ret))"

definition etl_metadata :: "string \<Rightarrow> flagged_row \<Rightarrow> staged_row" where
  "etl_metadata b r = flagged_row.extend r (staged_row.fields b ''online_retail.csv'')"

subsection \<open>The transformation\<close>

text \<open>
  The tracker is changed in place, so it is returned also when the function raises: the
  TypeError of the \<^verbatim>\<open>Int64\<close> cast after the first rule, the division by zero of the
  retention rate at the end when the frame came in empty.
\<close>

definition transform_data :: "env \<Rightarrow> raw_row list \<Rightarrow> tracker \<Rightarrow> (exn + staged_row list) \<times> tracker" where
  "transform_data e df dq_tracker =
     (let initial_count = length df;
          (df1, t1) = remove_unparseable_dates (map (add_invoice_date e) df) dq_tracker
      in if \<not> list_all (\<lambda>r. int64_castable (to_numeric e (CustomerID r))) df1
         then (Inl (TypeError ''cannot safely cast non-equivalent float64 to int64''), t1)
         else
           let df2 = map (add_numeric_columns e) df1;
               (df3, t3) = quarantine_suspicious_unit_price e df2 t1;
               (df4, t4) = quarantine_zero_quantity e df3 t3;
               (df5, t5) = quarantine_negative_unit_price e df4 t4;
               (df6, t6) = remove_all_null_rows df5 t5;
               (df7, t7) = remove_exact_duplicates df6 t6;
               (df8, t8) = remove_missing_critical df7 t7;
               df9 = map (etl_metadata (tracker_batch_id t8) \<circ> business_flags \<circ> standardize) df8
           in if initial_count = 0
              then (Inl (ZeroDivisionError ''division by zero''), t8)
              else (Inr df9, t8))"

section \<open>The warehouse tables and the statements\<close>

text \<open>
  A row of \<^verbatim>\<open>stg_retail_sales\<close> is the tuple of values of the INSERT statement, in the
  order of \<^verbatim>\<open>column_mapping\<close>: invoice\_no, stock\_code, description, quantity,
  invoice\_date, unit\_price, customer\_id, country, line\_total, is\_cancellation,
  is\_adjustment, is\_guest\_purchase, is\_valid\_sale, is\_return, batch\_id, source\_file.
\<close>

type_synonym stg_values =
  "string \<times> string \<times> string \<times> int \<times> int option \<times> rat \<times> int option \<times> string \<times> rat \<times>
   bool \<times> bool \<times> bool \<times> bool \<times> bool \<times> string \<times> string"

definition stg_invoice_date :: "stg_values \<Rightarrow> int option" where
  "stg_invoice_date v =
     (case v of (ino, sc, de, q, d, rest) \<Rightarrow> d)"

definition stg_batch_id :: "stg_values \<Rightarrow> string" where
  "stg_batch_id v =
     (case v of (ino, sc, de, q, d, p, c, co, lt, f1, f2, f3, f4, f5, b, sf) \<Rightarrow> b)"

record batch_log_row =
  b_batch_id :: string
  status :: string
  rows_extracted :: int
  rows_loaded_staging :: int
  b_rows_quarantined :: int
  error_message :: "string option"

text \<open>
  The state of the database seen through one connection: the content of the four tables
  and the number of statements sent so far.
\<close>

record database =
  stg_retail_sales :: "stg_values list"
  dq_quarantine_sales :: "quarantine_record list"
  dq_metrics :: "metric list"
  meta_etl_batch_log :: "batch_log_row list"
  executed :: nat

text \<open>
  \<^verbatim>\<open>run_sql_query\<close> executes and commits one statement and returns True; when the
  database raises, it rolls back and returns False, and nothing has changed.
\<close>

definition run_sql_query :: "env \<Rightarrow> (database \<Rightarrow> database) \<Rightarrow> database \<Rightarrow> bool \<times> database" where
  "run_sql_query e effect db =
     (if sql_ok e (executed db)
      then (True, (effect db)\<lparr>executed := Suc (executed db)\<rparr>)
      else (False, db\<lparr>executed := Suc (executed db)\<rparr>))"

definition create_retail_dwh_schema :: "env \<Rightarrow> database \<Rightarrow> bool \<times> database" where
  "create_retail_dwh_schema e db = run_sql_query e (\<lambda>d. d) db"

definition create_staging_table :: "env \<Rightarrow> database \<Rightarrow> bool \<times> database" where
  "create_staging_table e db = run_sql_query e (\<lambda>d. d\<lparr>stg_retail_sales := []\<rparr>) db"

definition create_dq_quarantine_table :: "env \<Rightarrow> database \<Rightarrow> bool \<times> database" where
  "create_dq_quarantine_table e db = run_sql_query e (\<lambda>d. d\<lparr>dq_quarantine_sales := []\<rparr>) db"

definition create_dq_metrics_table :: "env \<Rightarrow> database \<Rightarrow> bool \<times> database" where
  "create_dq_metrics_table e db = run_sql_query e (\<lambda>d. d\<lparr>dq_metrics := []\<rparr>) db"

definition create_meta_batch_log_table :: "env \<Rightarrow> database \<Rightarrow> bool \<times> database" where
  "create_meta_batch_log_table e db = run_sql_query e (\<lambda>d. d\<lparr>meta_etl_batch_log := []\<rparr>) db"

section \<open>Extraction\<close>

definition extract_data :: "env \<Rightarrow> raw_row list option" where
  "extract_data e = csv_file e"

text \<open>
  The query joins the staging rows with the batches logged as SUCCESS and takes the
  greatest invoice date; a failure of the query is caught and gives None.
\<close>

definition get_last_successful_batch_timestamp :: "env \<Rightarrow> database \<Rightarrow> int option \<times> database" where
  "get_last_successful_batch_timestamp e db =
     (let db' = db\<lparr>executed := Suc (executed db)\<rparr>
      in if sql_ok e (executed db)
         then (case concat (map (\<lambda>v. case stg_invoice_date v of None \<Rightarrow> [] | Some t \<Rightarrow> [t])
                       (filter (\<lambda>v. list_ex (\<lambda>b. b_batch_id b = stg_batch_id v \<and> status b = ''SUCCESS'')
                                        (meta_etl_batch_log db))
                          (stg_retail_sales db))) of
                 [] \<Rightarrow> (None, db')
               | t # ts \<Rightarrow> (Some (fold max ts t), db'))
         else (None, db'))"

definition convert_invoice_date :: "env \<Rightarrow> raw_row \<Rightarrow> raw_row" where
  "convert_invoice_date e r =
     r\<lparr>InvoiceDate := (case to_datetime e (InvoiceDate r) of None \<Rightarrow> DNaT | Some t \<Rightarrow> DTs t)\<rparr>"

definition newer_than :: "int \<Rightarrow> raw_row \<Rightarrow> bool" where
  "newer_than last_batch_date r = (case InvoiceDate r of DTs t \<Rightarrow> t > last_batch_date | _ \<Rightarrow> False)"

definition extract_data_incremental :: "env \<Rightarrow> int option \<Rightarrow> raw_row list option" where
  "extract_data_incremental e last_batch_date =
     (case csv_file e of
        None \<Rightarrow> None
      | Some df \<Rightarrow>
          (case last_batch_date of
             None \<Rightarrow> Some df
           | Some last_date \<Rightarrow> Some (filter (newer_than last_date) (map (convert_invoice_date e) df))))"

section \<open>Loading\<close>

definition df_load :: "staged_row \<Rightarrow> stg_values" where
  "df_load r =
     (invoice_no r, stock_code r, description r, quantity r, invoice_date r, unit_price r,
      customer_id r, country r, line_total r, is_cancellation r, is_adjustment r,
      is_guest_purchase r, is_valid_sale r, is_return r, batch_id r, source_file r)"

definition chunk_size :: nat where
  "chunk_size = 5000"

text \<open>One INSERT per chunk of 5000 rows; the first chunk that fails ends the load.\<close>

fun load_chunks :: "env \<Rightarrow> stg_values list \<Rightarrow> nat list \<Rightarrow> database \<Rightarrow> bool \<times> database" where
  "load_chunks e df_l [] db = (True, db)"
| "load_chunks e df_l (i # is) db =
     (let start_idx = i * chunk_size;
          end_idx = min (start_idx + chunk_size) (length df_l);
          chunk_df = take (end_idx - start_idx) (drop start_idx df_l);
          (success, db') = run_sql_query e (\<lambda>d. d\<lparr>stg_retail_sales := stg_retail_sales d @ chunk_df\<rparr>) db
      in if \<not> success then (False, db') else load_chunks e df_l is db')"

definition load_to_staging :: "env \<Rightarrow> staged_row list \<Rightarrow> database \<Rightarrow> bool \<times> database" where
  "load_to_staging e df db =
     (let df_l = map df_load df;
          total_chunks = (length df_l + chunk_size - 1) div chunk_size
      in load_chunks e df_l [0..<total_chunks] db)"

text \<open>One INSERT per row; the first that fails ends the load.\<close>

fun insert_rows :: "env \<Rightarrow> ('a \<Rightarrow> database \<Rightarrow> database) \<Rightarrow> 'a list \<Rightarrow> database \<Rightarrow> bool \<times> database" where
  "insert_rows e ins [] db = (True, db)"
| "insert_rows e ins (r # rs) db =
     (let (success, db') = run_sql_query e (ins r) db
      in if \<not> success then (False, db') else insert_rows e ins rs db')"

definition load_quarantine :: "env \<Rightarrow> tracker \<Rightarrow> database \<Rightarrow> bool \<times> database" where
  "load_quarantine e dq_tracker db =
     (if quarantine_records dq_tracker = [] then (True, db)
      else insert_rows e (\<lambda>r d. d\<lparr>dq_quarantine_sales := dq_quarantine_sales d @ [r]\<rparr>)
             (quarantine_records dq_tracker) db)"

definition load_dq_metrics :: "env \<Rightarrow> tracker \<Rightarrow> database \<Rightarrow> bool \<times> database" where
  "load_dq_metrics e dq_tracker db =
     (if metrics dq_tracker = [] then (True, db)
      else insert_rows e (\<lambda>m d. d\<lparr>dq_metrics := dq_metrics d @ [m]\<rparr>) (metrics dq_tracker) db)"

text \<open>The error message is stored when it is a non-empty string, NULL otherwise.\<close>

definition log_batch_execution ::
  "env \<Rightarrow> string \<Rightarrow> int \<Rightarrow> int \<Rightarrow> int \<Rightarrow> string option \<Rightarrow> database \<Rightarrow> bool \<times> database" where
  "log_batch_execution e st extracted loaded quarantined error_msg db =
     run_sql_query e
       (\<lambda>d. d\<lparr>meta_etl_batch_log := meta_etl_batch_log d @
               [\<lparr>b_batch_id = run_batch_id e, status = st, rows_extracted = extracted,
                 rows_loaded_staging = loaded, b_rows_quarantined = quarantined,
                 error_message = (case error_msg of None \<Rightarrow> None
                                  | Some m \<Rightarrow> if m = [] then None else Some m)\<rparr>]\<rparr>)
       db"

section \<open>run\_etl\_pipeline\<close>

text \<open>The handler of the \<^verbatim>\<open>except\<close> clause, for a run that has its connection.\<close>

definition pipeline_failed :: "env \<Rightarrow> exn \<Rightarrow> database \<Rightarrow> bool \<times> database" where
  "pipeline_failed e ex db =
     (False, snd (log_batch_execution e ''FAILED'' 0 0 0 (Some (str_exn ex)) db))"

text \<open>What the run does with the frame it has extracted.\<close>

definition process_extracted :: "env \<Rightarrow> raw_row list option \<Rightarrow> database \<Rightarrow> bool \<times> database" where
  "process_extracted e extracted db =
     (case extracted of
        None \<Rightarrow> pipeline_failed e (Exception ''Extraction failed'') db
      | Some df \<Rightarrow>
          if length df = 0
          then (True, snd (log_batch_execution e ''SUCCESS_NO_DATA'' 0 0 0
                             (Some ''No new data to process'') db))
          else
            (case transform_data e df (DataQualityTracker (run_batch_id e)) of
               (Inl ex, dq_tracker) \<Rightarrow> pipeline_failed e ex db
             | (Inr df_clean, dq_tracker) \<Rightarrow>
                 let (success_staging, db1) = load_to_staging e df_clean db;
                     (success_quarantine, db2) = load_quarantine e dq_tracker db1;
                     (success_metrics, db3) = load_dq_metrics e dq_tracker db2
                 in if \<not> (success_staging \<and> success_quarantine \<and> success_metrics)
                    then pipeline_failed e (Exception ''Loading failed'') db3
                    else (True, snd (log_batch_execution e ''SUCCESS''
                                       (int (length df)) (int (length df_clean))
                                       (int (length (quarantine_records dq_tracker))) None db3))))"

text \<open>The five statements that set the schema and the tables up, results ignored.\<close>

definition create_tables :: "env \<Rightarrow> database \<Rightarrow> database" where
  "create_tables e db =
     snd (create_meta_batch_log_table e
       (snd (create_dq_metrics_table e
         (snd (create_dq_quarantine_table e
           (snd (create_staging_table e
             (snd (create_retail_dwh_schema e db)))))))))"

text \<open>
  When \<^verbatim>\<open>create_database_connection\<close> raises, the handler finds no connection and writes
  nothing.
\<close>

definition run_etl_pipeline :: "env \<Rightarrow> string \<Rightarrow> database \<Rightarrow> bool \<times> database" where
  "run_etl_pipeline e mode db =
     (if \<not> connect_ok e then (False, db)
      else
        let db1 = create_tables e db
        in if mode = ''incremental''
           then let (last_batch_date, db2) = get_last_successful_batch_timestamp e db1
                in process_extracted e (extract_data_incremental e last_batch_date) db2
           else process_extracted e (extract_data e) db1)"

section \<open>The command line\<close>

text \<open>
  \<^verbatim>\<open>--mode\<close> is \<^verbatim>\<open>full\<close> when absent; argparse ends the process with status 2 on a
  value that is not a choice.  The script calls \<^verbatim>\<open>run_etl_pipeline\<close> and drops what it
  returns, so the interpreter ends with status 0.
\<close>

definition parse_arguments :: "string option \<Rightarrow> int + string" where
  "parse_arguments arg =
     (case arg of
        None \<Rightarrow> Inr ''full''
      | Some m \<Rightarrow> if m = ''full'' \<or> m = ''incremental'' then Inr m else Inl 2)"

definition etl_pipeline_main :: "env \<Rightarrow> string option \<Rightarrow> database \<Rightarrow> int \<times> database" where
  "etl_pipeline_main e arg db =
     (case parse_arguments arg of
        Inl code \<Rightarrow> (code, db)
      | Inr mode \<Rightarrow> (0, snd (run_etl_pipeline e mode db)))"

text \<open>
  \<^verbatim>\<open>run_full_pipeline.py\<close> starts \<^verbatim>\<open>python etl_pipeline.py\<close> through \<^verbatim>\<open>run_command\<close>, which
  is True exactly when the process ends with status 0, and stops when it is False.
\<close>

definition run_command :: "int \<Rightarrow> bool" where
  "run_command returncode = (returncode = 0)"

definition etl_step_succeeded :: "env \<Rightarrow> database \<Rightarrow> bool" where
  "etl_step_succeeded e db = run_command (fst (etl_pipeline_main e None db))"

section \<open>Notions used to state the properties\<close>

text \<open>What a step has added to the tracker.\<close>

definition new_metrics :: "tracker \<Rightarrow> tracker \<Rightarrow> metric list" where
  "new_metrics t t' = drop (length (metrics t)) (metrics t')"

definition new_quarantine :: "tracker \<Rightarrow> tracker \<Rightarrow> quarantine_record list" where
  "new_quarantine t t' = drop (length (quarantine_records t)) (quarantine_records t')"

definition rejected_count :: "metric list \<Rightarrow> int" where
  "rejected_count ms = sum_list (map (\<lambda>m. rows_quarantined m + rows_dropped m) ms)"

definition dropped_count :: "metric list \<Rightarrow> int" where
  "dropped_count ms = sum_list (map rows_dropped ms)"

text \<open>
  A rule stage conserves rows: the size before is the size after plus the rejections the
  stage has reported.
\<close>

definition stage_conserves :: "'a list \<Rightarrow> tracker \<Rightarrow> 'b list \<times> tracker \<Rightarrow> bool" where
  "stage_conserves df t res =
     (metrics (snd res) = metrics t @ new_metrics t (snd res) \<and>
      int (length df) = int (length (fst res)) + rejected_count (new_metrics t (snd res)))"

text \<open>
  What a rule reports: nothing when no row went, otherwise one metric with the sizes
  before and after and the difference in the column of the rule's disposition.
\<close>

definition rule_metric ::
  "string \<Rightarrow> string \<Rightarrow> string \<Rightarrow> string \<Rightarrow> bool \<Rightarrow> nat \<Rightarrow> nat \<Rightarrow> metric list" where
  "rule_metric b rule category note quarantines pre post =
     (if post < pre
      then [\<lparr>m_batch_id = b, m_rule_name = rule, rule_category = category,
             rows_processed = int pre, rows_passed = int post,
             rows_quarantined = (if quarantines then int pre - int post else 0),
             rows_dropped = (if quarantines then 0 else int pre - int post),
             m_notes = note\<rparr>]
      else [])"

definition castable_frame :: "env \<Rightarrow> raw_row list \<Rightarrow> bool" where
  "castable_frame e df =
     list_all (\<lambda>r. int64_castable (to_numeric e (CustomerID r)))
       (filter (\<lambda>r. invoice_date r \<noteq> None) (map (add_invoice_date e) df))"

text \<open>The frame the quarantine rules start from, and what each of them leaves.\<close>

definition typed_frame :: "env \<Rightarrow> raw_row list \<Rightarrow> typed_row list" where
  "typed_frame e df =
     map (add_numeric_columns e) (filter (\<lambda>r. invoice_date r \<noteq> None) (map (add_invoice_date e) df))"

definition after_suspicious :: "env \<Rightarrow> raw_row list \<Rightarrow> typed_row list" where
  "after_suspicious e df = filter (\<lambda>r. \<not> suspicious_price_mask r) (typed_frame e df)"

definition after_zero_qty :: "env \<Rightarrow> raw_row list \<Rightarrow> typed_row list" where
  "after_zero_qty e df = filter (\<lambda>r. \<not> zero_qty_mask r) (after_suspicious e df)"

definition after_neg_price :: "env \<Rightarrow> raw_row list \<Rightarrow> typed_row list" where
  "after_neg_price e df = filter (\<lambda>r. \<not> neg_price_mask r) (after_zero_qty e df)"

definition survivors :: "env \<Rightarrow> raw_row list \<Rightarrow> typed_row list" where
  "survivors e df =
     filter critical_present (drop_duplicates (filter (\<lambda>r. \<not> all_null r) (after_neg_price e df)))"

text \<open>What a whole transformation reports and quarantines, rule after rule.\<close>

definition batch_metrics :: "string \<Rightarrow> env \<Rightarrow> raw_row list \<Rightarrow> metric list" where
  "batch_metrics b e df =
     rule_metric b ''remove_unparseable_dates'' ''data_integrity''
       ''DQ004: Unparseable InvoiceDate'' False
       (length df) (length (typed_frame e df)) @
     rule_metric b ''quarantine_suspicious_unit_price'' ''anomaly_detection''
       ''AN001: Potential pricing errors'' True
       (length (typed_frame e df)) (length (after_suspicious e df)) @
     rule_metric b ''quarantine_zero_quantity'' ''anomaly_detection''
       ''AN002: Invalid zero quantity'' True
       (length (after_suspicious e df)) (length (after_zero_qty e df)) @
     rule_metric b ''quarantine_negative_unit_price'' ''anomaly_detection''
       ''AN003: Invalid negative price'' True
       (length (after_zero_qty e df)) (length (after_neg_price e df)) @
     rule_metric b ''remove_all_null_rows'' ''data_integrity''
       ''DQ001: Completely empty rows'' False
       (length (after_neg_price e df))
       (length (filter (\<lambda>r. \<not> all_null r) (after_neg_price e df))) @
     rule_metric b ''remove_exact_duplicates'' ''data_integrity''
       ''DQ002: Exact duplicate rows'' False
       (length (filter (\<lambda>r. \<not> all_null r) (after_neg_price e df)))
       (length (drop_duplicates (filter (\<lambda>r. \<not> all_null r) (after_neg_price e df)))) @
     rule_metric b ''remove_missing_critical'' ''data_integrity''
       ''DQ003: Missing InvoiceNo/StockCode/Date/Qty/Price'' False
       (length (drop_duplicates (filter (\<lambda>r. \<not> all_null r) (after_neg_price e df))))
       (length (survivors e df))"

definition batch_quarantine :: "string \<Rightarrow> env \<Rightarrow> raw_row list \<Rightarrow> quarantine_record list" where
  "batch_quarantine b e df =
     map (quarantine_entry e b ''quarantine_suspicious_unit_price''
            ''AN001: Unit price >$10K with low quantity'')
       (filter suspicious_price_mask (typed_frame e df)) @
     map (quarantine_entry e b ''quarantine_zero_quantity'' ''AN002: Quantity = 0'')
       (filter zero_qty_mask (after_suspicious e df)) @
     map (quarantine_entry e b ''quarantine_negative_unit_price'' ''AN003: Negative unit price'')
       (filter neg_price_mask (after_zero_qty e df))"

definition quarantined_count :: "metric list \<Rightarrow> int" where
  "quarantined_count ms = sum_list (map rows_quarantined ms)"

text \<open>
  The contract of a rule's metric: with a rejection, exactly one metric, of the rule, with
  the sizes before and after and the rejections in the column of the disposition, the
  other column 0; without, none.
\<close>

definition emission_contract :: "string \<Rightarrow> bool \<Rightarrow> nat \<Rightarrow> nat \<Rightarrow> metric list \<Rightarrow> bool" where
  "emission_contract rule quarantines pre post ms =
     (if post < pre
      then (\<exists>m. ms = [m] \<and> m_rule_name m = rule \<and>
                rows_processed m = int pre \<and> rows_passed m = int post \<and>
                (if quarantines
                 then rows_quarantined m = int pre - int post \<and> rows_dropped m = 0
                 else rows_dropped m = int pre - int post \<and> rows_quarantined m = 0))
      else ms = [])"

definition follows_contract ::
  "string \<Rightarrow> bool \<Rightarrow> 'a list \<Rightarrow> tracker \<Rightarrow> 'b list \<times> tracker \<Rightarrow> bool" where
  "follows_contract rule quarantines df t res =
     (metrics (snd res) = metrics t @ new_metrics t (snd res) \<and>
      emission_contract rule quarantines (length df) (length (fst res)) (new_metrics t (snd res)))"

text \<open>A raw row with the columns of the type casting.\<close>

definition typed :: "env \<Rightarrow> raw_row \<Rightarrow> typed_row" where
  "typed e r = add_numeric_columns e (add_invoice_date e r)"

text \<open>A raw row that no rule rejects on its own columns.\<close>

definition passes_rules :: "env \<Rightarrow> raw_row \<Rightarrow> bool" where
  "passes_rules e r =
     (invoice_date (typed e r) \<noteq> None \<and> \<not> suspicious_price_mask (typed e r) \<and>
      \<not> zero_qty_mask (typed e r) \<and> \<not> neg_price_mask (typed e r) \<and>
      \<not> all_null (typed e r) \<and> critical_present (typed e r))"

definition classify :: "string \<Rightarrow> typed_row \<Rightarrow> staged_row" where
  "classify b r = etl_metadata b (business_flags (standardize r))"

text \<open>The frame a run extracts, and the database it then works on.\<close>

definition extracted_frame :: "env \<Rightarrow> string \<Rightarrow> database \<Rightarrow> raw_row list option" where
  "extracted_frame e mode db =
     (if mode = ''incremental''
      then extract_data_incremental e (fst (get_last_successful_batch_timestamp e (create_tables e db)))
      else extract_data e)"

definition db_at_extraction :: "env \<Rightarrow> string \<Rightarrow> database \<Rightarrow> database" where
  "db_at_extraction e mode db =
     (if mode = ''incremental''
      then snd (get_last_successful_batch_timestamp e (create_tables e db))
      else create_tables e db)"

text \<open>
  The batch record of a run that has its connection, from the frame it extracted and its
  result.
\<close>

definition final_record :: "env \<Rightarrow> raw_row list option \<Rightarrow> bool \<Rightarrow> batch_log_row" where
  "final_record e extracted ok =
     (case extracted of
        None \<Rightarrow>
          \<lparr>b_batch_id = run_batch_id e, status = ''FAILED'', rows_extracted = 0,
           rows_loaded_staging = 0, b_rows_quarantined = 0,
           error_message = Some ''Extraction failed''\<rparr>
      | Some df \<Rightarrow>
          if df = []
          then \<lparr>b_batch_id = run_batch_id e, status = ''SUCCESS_NO_DATA'', rows_extracted = 0,
                rows_loaded_staging = 0, b_rows_quarantined = 0,
                error_message = Some ''No new data to process''\<rparr>
          else
            (case transform_data e df (DataQualityTracker (run_batch_id e)) of
               (Inl ex, dq_tracker) \<Rightarrow>
                 \<lparr>b_batch_id = run_batch_id e, status = ''FAILED'', rows_extracted = 0,
                  rows_loaded_staging = 0, b_rows_quarantined = 0,
                  error_message = Some (str_exn ex)\<rparr>
             | (Inr df_clean, dq_tracker) \<Rightarrow>
                 if ok
                 then \<lparr>b_batch_id = run_batch_id e, status = ''SUCCESS'',
                       rows_extracted = int (length df),
                       rows_loaded_staging = int (length df_clean),
                       b_rows_quarantined = int (length (quarantine_records dq_tracker)),
                       error_message = None\<rparr>
                 else \<lparr>b_batch_id = run_batch_id e, status = ''FAILED'', rows_extracted = 0,
                       rows_loaded_staging = 0, b_rows_quarantined = 0,
                       error_message = Some ''Loading failed''\<rparr>))"

text \<open>
  The tables of a database hold one batch whose record conserves rows: one batch record,
  whose counts of staged and quarantined rows are the sizes of the staging and quarantine
  tables, and whose count of extracted rows is their sum plus the rows the metrics report
  as dropped.
\<close>

definition batch_conserved :: "database \<Rightarrow> bool" where
  "batch_conserved db =
     (\<exists>b. meta_etl_batch_log db = [b] \<and>
          rows_loaded_staging b = int (length (stg_retail_sales db)) \<and>
          b_rows_quarantined b = int (length (dq_quarantine_sales db)) \<and>
          rows_extracted b =
            rows_loaded_staging b + b_rows_quarantined b + dropped_count (dq_metrics db))"

definition emptied :: "database \<Rightarrow> database" where
  "emptied db =
     db\<lparr>stg_retail_sales := [], dq_quarantine_sales := [], dq_metrics := [], meta_etl_batch_log := []\<rparr>"

section \<open>Sample data\<close>

definition sample_date :: string where
  "sample_date = ''2010-12-01 08:26:00''"

definition row_c100 :: raw_row where
  "row_c100 =
     \<lparr>InvoiceNo = Some ''C100'', StockCode = Some ''A1'', Description = Some ''DISCOUNT'',
      Quantity = NNum (- 3), InvoiceDate = DStr sample_date, UnitPrice = NNum 5,
      CustomerID = NNaN, Country = Some ''France''\<rparr>"

definition row_sale :: raw_row where
  "row_sale =
     \<lparr>InvoiceNo = Some ''536365'', StockCode = Some '' 85123a'', Description = None,
      Quantity = NNum 6, InvoiceDate = DStr sample_date, UnitPrice = NNum (51 / 20),
      CustomerID = NNum 17850, Country = Some ''united kingdom ''\<rparr>"

definition row_zero_qty :: raw_row where
  "row_zero_qty =
     \<lparr>InvoiceNo = Some ''100'', StockCode = Some ''A1'', Description = Some ''MUG'',
      Quantity = NNum 0, InvoiceDate = DStr sample_date, UnitPrice = NNum 5,
      CustomerID = NNum 17850, Country = Some ''France''\<rparr>"

definition row_suspicious :: raw_row where
  "row_suspicious =
     \<lparr>InvoiceNo = Some ''537632'', StockCode = Some ''AMAZONFEE'', Description = Some ''AMAZON FEE'',
      Quantity = NNum 5, InvoiceDate = DStr sample_date, UnitPrice = NNum 15000,
      CustomerID = NNum 12345, Country = Some ''France''\<rparr>"

definition row_neg_price :: raw_row where
  "row_neg_price =
     \<lparr>InvoiceNo = Some ''A563186'', StockCode = Some ''B'', Description = Some ''Adjust bad debt'',
      Quantity = NNum 1, InvoiceDate = DStr sample_date, UnitPrice = NNum (- 11062),
      CustomerID = NNaN, Country = None\<rparr>"

definition row_bad_date :: raw_row where
  "row_bad_date =
     \<lparr>InvoiceNo = Some ''536366'', StockCode = Some ''22633'', Description = Some ''HAND WARMER'',
      Quantity = NNum 6, InvoiceDate = DStr ''yesterday'', UnitPrice = NNum 2,
      CustomerID = NNum 17850, Country = Some ''France''\<rparr>"

definition row_no_stock_code :: raw_row where
  "row_no_stock_code =
     \<lparr>InvoiceNo = Some ''536367'', StockCode = None, Description = Some ''POSTAGE'',
      Quantity = NNum 1, InvoiceDate = DStr sample_date, UnitPrice = NNum 18,
      CustomerID = NNum 13047, Country = Some ''France''\<rparr>"

definition row_cancel :: raw_row where
  "row_cancel =
     \<lparr>InvoiceNo = Some ''c536379 '', StockCode = Some ''D'', Description = Some ''Discount'',
      Quantity = NNum (- 1), InvoiceDate = DStr sample_date, UnitPrice = NNum (55 / 2),
      CustomerID = NNum 14527, Country = Some ''United Kingdom''\<rparr>"

definition staged_cancel :: staged_row where
  "staged_cancel =
     \<lparr>InvoiceNo = Some ''c536379 '', StockCode = Some ''D'', Description = Some ''Discount'',
      Quantity = NNum (- 1), InvoiceDate = DStr sample_date, UnitPrice = NNum (55 / 2),
      CustomerID = NNum 14527, Country = Some ''United Kingdom'',
      invoice_date = Some 1291191960, quantity = - 1, unit_price = 55 / 2,
      customer_id = Some 14527, line_total = - (55 / 2),
      invoice_no = ''C536379'', stock_code = ''D'', description = ''Discount'',
      country = ''United Kingdom'',
      is_cancellation = True, is_adjustment = False, is_guest_purchase = False,
      is_valid_sale = False, is_return = True,
      batch_id = ''20240102_030405'', source_file = ''online_retail.csv''\<rparr>"

definition sample_rows :: "raw_row list" where
  "sample_rows =
     [row_sale, row_c100, row_zero_qty, row_bad_date, row_suspicious, row_sale,
      row_neg_price, row_no_stock_code]"

definition sample_env :: env where
  "sample_env =
     \<lparr>parse_datetime = (\<lambda>s. if s = sample_date then Some 1291191960 else None),
      parse_numeric = (\<lambda>s. None),
      format_timestamp = (\<lambda>t. sample_date),
      csv_file = Some sample_rows,
      connect_ok = True,
      sql_ok = (\<lambda>n. True),
      run_batch_id = ''20240102_030405''\<rparr>"

text \<open>The sample environment with a CSV file of one row.\<close>

definition static_csv_env :: env where
  "static_csv_env = sample_env\<lparr>csv_file := Some [row_sale]\<rparr>"

definition empty_db :: database where
  "empty_db =
     \<lparr>stg_retail_sales = [], dq_quarantine_sales = [], dq_metrics = [],
      meta_etl_batch_log = [], executed = 0\<rparr>"

text \<open>
  A database that holds one batch logged as SUCCESS, with one staged row of the sample
  date.
\<close>

definition loaded_db :: database where
  "loaded_db =
     \<lparr>stg_retail_sales =
        [(''536365'', ''85123A'', ''UNKNOWN PRODUCT'', 6, Some 1291191960, 51 / 20, Some 17850,
          ''United Kingdom'', 153 / 10, False, False, False, True, False,
          ''20240101_030405'', ''online_retail.csv'')],
      dq_quarantine_sales = [], dq_metrics = [],
      meta_etl_batch_log =
        [\<lparr>b_batch_id = ''20240101_030405'', status = ''SUCCESS'', rows_extracted = 1,
          rows_loaded_staging = 1, b_rows_quarantined = 0, error_message = None\<rparr>],
      executed = 0\<rparr>"

text \<open>
  Environments in which something goes wrong: the seventh statement of the run (the INSERT
  into the quarantine table) is refused; a customer id is not a whole number; the
  connection cannot be opened; the statements that drop and recreate the staging and the
  batch-log table are refused.
\<close>

definition refused_quarantine_env :: env where
  "refused_quarantine_env =
     sample_env\<lparr>csv_file := Some [row_sale, row_zero_qty], sql_ok := (\<lambda>n. n \<noteq> 6)\<rparr>"

definition row_half_customer :: raw_row where
  "row_half_customer =
     \<lparr>InvoiceNo = Some ''536368'', StockCode = Some ''22960'', Description = Some ''JAM MAKING SET'',
      Quantity = NNum 6, InvoiceDate = DStr sample_date, UnitPrice = NNum (17 / 4),
      CustomerID = NNum (26095 / 2), Country = Some ''France''\<rparr>"

definition bad_customer_env :: env where
  "bad_customer_env = sample_env\<lparr>csv_file := Some [row_sale, row_half_customer]\<rparr>"

definition no_connection_env :: env where
  "no_connection_env = static_csv_env\<lparr>connect_ok := False\<rparr>"

definition refused_drop_env :: env where
  "refused_drop_env = static_csv_env\<lparr>sql_ok := (\<lambda>n. n \<noteq> 1 \<and> n \<noteq> 4)\<rparr>"


section \<open>The tracker and the rules\<close>

lemma add_metric_simps:
  "metrics (add_metric t rule cat a b c d note) =
     metrics t @ [\<lparr>m_batch_id = tracker_batch_id t, m_rule_name = rule, rule_category = cat,
          rows_processed = a, rows_passed = b, rows_quarantined = c, rows_dropped = d, m_notes = note\<rparr>]"
  "quarantine_records (add_metric t rule cat a b c d note) = quarantine_records t"
  "tracker_batch_id (add_metric t rule cat a b c d note) = tracker_batch_id t"
  by (simp_all add: add_metric_def)

lemma quarantine_rows_simps:
  "metrics (quarantine_rows e t rows rule reason) = metrics t"
  "quarantine_records (quarantine_rows e t rows rule reason) =
     quarantine_records t @ map (quarantine_entry e (tracker_batch_id t) rule reason) rows"
  "tracker_batch_id (quarantine_rows e t rows rule reason) = tracker_batch_id t"
  by (simp_all add: quarantine_rows_def)

lemma length_filter_compl: "int (length (filter P xs)) + int (length (filter (\<lambda>x. \<not> P x) xs)) = int (length xs)"
  using sum_length_filter_compl [of P xs] by linarith

lemma fst_drop_rule: "fst (drop_rule keep rule note df t) = keep df"
  by (simp add: drop_rule_def Let_def)

lemma metrics_drop_rule:
  "metrics (snd (drop_rule keep rule note df t)) =
     metrics t @ (if int (length df) - int (length (keep df)) > 0
        then [\<lparr>m_batch_id = tracker_batch_id t, m_rule_name = rule, rule_category = ''data_integrity'',
               rows_processed = int (length df), rows_passed = int (length (keep df)),
               rows_quarantined = 0, rows_dropped = int (length df) - int (length (keep df)),
               m_notes = note\<rparr>]
        else [])"
  by (simp add: drop_rule_def Let_def add_metric_simps)

lemma quarantine_drop_rule:
  "quarantine_records (snd (drop_rule keep rule note df t)) = quarantine_records t"
  by (simp add: drop_rule_def Let_def add_metric_simps)

lemma batch_id_drop_rule:
  "tracker_batch_id (snd (drop_rule keep rule note df t)) = tracker_batch_id t"
  by (simp add: drop_rule_def Let_def add_metric_simps)

lemma fst_quarantine_rule: "fst (quarantine_rule e m rule reason note df t) = filter (\<lambda>r. \<not> m r) df"
proof (cases "filter m df = []")
  case True
  then have "\<forall>r\<in>set df. \<not> m r" by (simp add: filter_empty_conv)
  then have "filter (\<lambda>r. \<not> m r) df = df" by simp
  with True show ?thesis by (simp add: quarantine_rule_def Let_def)
next
  case False
  then show ?thesis by (simp add: quarantine_rule_def Let_def)
qed

lemma metrics_quarantine_rule:
  "metrics (snd (quarantine_rule e m rule reason note df t)) =
     metrics t @ (if filter m df \<noteq> []
        then [\<lparr>m_batch_id = tracker_batch_id t, m_rule_name = rule, rule_category = ''anomaly_detection'',
               rows_processed = int (length df), rows_passed = int (length (filter (\<lambda>r. \<not> m r) df)),
               rows_quarantined = int (length (filter m df)), rows_dropped = 0,
               m_notes = note\<rparr>]
        else [])"
  using length_filter_compl [of m df]
  by (simp add: quarantine_rule_def Let_def add_metric_simps quarantine_rows_simps add.commute)

lemma quarantine_quarantine_rule:
  "quarantine_records (snd (quarantine_rule e m rule reason note df t)) =
     quarantine_records t @ map (quarantine_entry e (tracker_batch_id t) rule reason) (filter m df)"
  by (simp add: quarantine_rule_def Let_def add_metric_simps quarantine_rows_simps)

lemma batch_id_quarantine_rule:
  "tracker_batch_id (snd (quarantine_rule e m rule reason note df t)) = tracker_batch_id t"
  by (simp add: quarantine_rule_def Let_def add_metric_simps quarantine_rows_simps)

lemma length_drop_duplicates_from: "length (drop_duplicates_from seen xs) \<le> length xs"
  by (induction xs arbitrary: seen) (auto simp: le_SucI)

lemma length_drop_duplicates: "length (drop_duplicates xs) \<le> length xs"
  by (simp add: drop_duplicates_def length_drop_duplicates_from)


lemma drop_rule_metrics:
  assumes "length (keep df) \<le> length df"
  shows "metrics (snd (drop_rule keep rule note df t)) =
     metrics t @ rule_metric (tracker_batch_id t) rule ''data_integrity'' note False (length df) (length (keep df))"
  using assms by (auto simp add: metrics_drop_rule rule_metric_def)

lemma quarantine_rule_metrics:
  "metrics (snd (quarantine_rule e m rule reason note df t)) =
     metrics t @ rule_metric (tracker_batch_id t) rule ''anomaly_detection'' note True
        (length df) (length (filter (\<lambda>r. \<not> m r) df))"
proof -
  have "int (length (filter m df)) = int (length df) - int (length (filter (\<lambda>r. \<not> m r) df))"
    using length_filter_compl [of m df] by linarith
  moreover have "filter m df \<noteq> [] \<longleftrightarrow> length (filter (\<lambda>r. \<not> m r) df) < length df"
    using length_filter_compl [of m df] by (cases "filter m df") auto
  ultimately show ?thesis
    by (simp add: metrics_quarantine_rule rule_metric_def)
qed

subsection \<open>The seven rules\<close>

lemma remove_unparseable_dates_simps:
  "fst (remove_unparseable_dates df t) = filter (\<lambda>r. invoice_date r \<noteq> None) df"
  "metrics (snd (remove_unparseable_dates df t)) =
     metrics t @ rule_metric (tracker_batch_id t) ''remove_unparseable_dates'' ''data_integrity''
        ''DQ004: Unparseable InvoiceDate'' False (length df)
        (length (filter (\<lambda>r. invoice_date r \<noteq> None) df))"
  "quarantine_records (snd (remove_unparseable_dates df t)) = quarantine_records t"
  "tracker_batch_id (snd (remove_unparseable_dates df t)) = tracker_batch_id t"
  by (simp_all add: remove_unparseable_dates_def fst_drop_rule drop_rule_metrics
        quarantine_drop_rule batch_id_drop_rule)

lemma quarantine_suspicious_unit_price_simps:
  "fst (quarantine_suspicious_unit_price e df t) = filter (\<lambda>r. \<not> suspicious_price_mask r) df"
  "metrics (snd (quarantine_suspicious_unit_price e df t)) =
     metrics t @ rule_metric (tracker_batch_id t) ''quarantine_suspicious_unit_price''
        ''anomaly_detection'' ''AN001: Potential pricing errors'' True (length df)
        (length (filter (\<lambda>r. \<not> suspicious_price_mask r) df))"
  "quarantine_records (snd (quarantine_suspicious_unit_price e df t)) =
     quarantine_records t @
     map (quarantine_entry e (tracker_batch_id t) ''quarantine_suspicious_unit_price''
            ''AN001: Unit price >$10K with low quantity'') (filter suspicious_price_mask df)"
  "tracker_batch_id (snd (quarantine_suspicious_unit_price e df t)) = tracker_batch_id t"
  by (simp_all add: quarantine_suspicious_unit_price_def fst_quarantine_rule
        quarantine_rule_metrics quarantine_quarantine_rule batch_id_quarantine_rule)

lemma quarantine_zero_quantity_simps:
  "fst (quarantine_zero_quantity e df t) = filter (\<lambda>r. \<not> zero_qty_mask r) df"
  "metrics (snd (quarantine_zero_quantity e df t)) =
     metrics t @ rule_metric (tracker_batch_id t) ''quarantine_zero_quantity''
        ''anomaly_detection'' ''AN002: Invalid zero quantity'' True (length df)
        (length (filter (\<lambda>r. \<not> zero_qty_mask r) df))"
  "quarantine_records (snd (quarantine_zero_quantity e df t)) =
     quarantine_records t @
     map (quarantine_entry e (tracker_batch_id t) ''quarantine_zero_quantity''
            ''AN002: Quantity = 0'') (filter zero_qty_mask df)"
  "tracker_batch_id (snd (quarantine_zero_quantity e df t)) = tracker_batch_id t"
  by (simp_all add: quarantine_zero_quantity_def fst_quarantine_rule
        quarantine_rule_metrics quarantine_quarantine_rule batch_id_quarantine_rule)

lemma quarantine_negative_unit_price_simps:
  "fst (quarantine_negative_unit_price e df t) = filter (\<lambda>r. \<not> neg_price_mask r) df"
  "metrics (snd (quarantine_negative_unit_price e df t)) =
     metrics t @ rule_metric (tracker_batch_id t) ''quarantine_negative_unit_price''
        ''anomaly_detection'' ''AN003: Invalid negative price'' True (length df)
        (length (filter (\<lambda>r. \<not> neg_price_mask r) df))"
  "quarantine_records (snd (quarantine_negative_unit_price e df t)) =
     quarantine_records t @
     map (quarantine_entry e (tracker_batch_id t) ''quarantine_negative_unit_price''
            ''AN003: Negative unit price'') (filter neg_price_mask df)"
  "tracker_batch_id (snd (quarantine_negative_unit_price e df t)) = tracker_batch_id t"
  by (simp_all add: quarantine_negative_unit_price_def fst_quarantine_rule
        quarantine_rule_metrics quarantine_quarantine_rule batch_id_quarantine_rule)

lemma remove_all_null_rows_simps:
  "fst (remove_all_null_rows df t) = filter (\<lambda>r. \<not> all_null r) df"
  "metrics (snd (remove_all_null_rows df t)) =
     metrics t @ rule_metric (tracker_batch_id t) ''remove_all_null_rows'' ''data_integrity''
        ''DQ001: Completely empty rows'' False (length df)
        (length (filter (\<lambda>r. \<not> all_null r) df))"
  "quarantine_records (snd (remove_all_null_rows df t)) = quarantine_records t"
  "tracker_batch_id (snd (remove_all_null_rows df t)) = tracker_batch_id t"
  by (simp_all add: remove_all_null_rows_def fst_drop_rule drop_rule_metrics
        quarantine_drop_rule batch_id_drop_rule)

lemma remove_exact_duplicates_simps:
  "fst (remove_exact_duplicates df t) = drop_duplicates df"
  "metrics (snd (remove_exact_duplicates df t)) =
     metrics t @ rule_metric (tracker_batch_id t) ''remove_exact_duplicates'' ''data_integrity''
        ''DQ002: Exact duplicate rows'' False (length df) (length (drop_duplicates df))"
  "quarantine_records (snd (remove_exact_duplicates df t)) = quarantine_records t"
  "tracker_batch_id (snd (remove_exact_duplicates df t)) = tracker_batch_id t"
  by (simp_all add: remove_exact_duplicates_def fst_drop_rule drop_rule_metrics
        quarantine_drop_rule batch_id_drop_rule length_drop_duplicates)

lemma remove_missing_critical_simps:
  "fst (remove_missing_critical df t) = filter critical_present df"
  "metrics (snd (remove_missing_critical df t)) =
     metrics t @ rule_metric (tracker_batch_id t) ''remove_missing_critical'' ''data_integrity''
        ''DQ003: Missing InvoiceNo/StockCode/Date/Qty/Price'' False (length df)
        (length (filter critical_present df))"
  "quarantine_records (snd (remove_missing_critical df t)) = quarantine_records t"
  "tracker_batch_id (snd (remove_missing_critical df t)) = tracker_batch_id t"
  by (simp_all add: remove_missing_critical_def fst_drop_rule drop_rule_metrics
        quarantine_drop_rule batch_id_drop_rule)

lemmas rule_simps =
  remove_unparseable_dates_simps quarantine_suspicious_unit_price_simps
  quarantine_zero_quantity_simps quarantine_negative_unit_price_simps
  remove_all_null_rows_simps remove_exact_duplicates_simps remove_missing_critical_simps

subsection \<open>The transformation in closed form\<close>

lemma fst_transform_data:
  "fst (transform_data e df t) =
     (if \<not> castable_frame e df
      then Inl (TypeError ''cannot safely cast non-equivalent float64 to int64'')
      else if df = [] then Inl (ZeroDivisionError ''division by zero'')
      else Inr (map (classify (tracker_batch_id t)) (survivors e df)))"
  by (simp add: transform_data_def Let_def split_def rule_simps castable_frame_def
        survivors_def after_neg_price_def after_zero_qty_def after_suspicious_def
        typed_frame_def classify_def comp_def)

lemma quarantine_transform_data:
  assumes "castable_frame e df"
  shows "quarantine_records (snd (transform_data e df t)) =
     quarantine_records t @
     map (quarantine_entry e (tracker_batch_id t) ''quarantine_suspicious_unit_price''
            ''AN001: Unit price >$10K with low quantity'')
       (filter suspicious_price_mask (typed_frame e df)) @
     map (quarantine_entry e (tracker_batch_id t) ''quarantine_zero_quantity''
            ''AN002: Quantity = 0'')
       (filter zero_qty_mask (after_suspicious e df)) @
     map (quarantine_entry e (tracker_batch_id t) ''quarantine_negative_unit_price''
            ''AN003: Negative unit price'')
       (filter neg_price_mask (after_zero_qty e df))"
  using assms
  by (simp add: transform_data_def Let_def split_def rule_simps castable_frame_def
        after_zero_qty_def after_suspicious_def typed_frame_def)

subsection \<open>Single rows and flags\<close>

lemmas row_defs = raw_row.defs dated_row.defs typed_row.defs std_row.defs flagged_row.defs staged_row.defs

lemma typed_frame_single:
  "typed_frame e [r] = (if to_datetime e (InvoiceDate r) = None then [] else [typed e r])"
  by (simp add: typed_frame_def typed_def add_invoice_date_def row_defs)

lemma business_flags_simps:
  "is_cancellation (classify b r) = startswith (invoice_no (standardize r)) ''C''"
  "is_adjustment (classify b r) =
     (quantity r < 0 \<and> \<not> startswith (invoice_no (standardize r)) ''C'' \<and> unit_price r = 0 \<and> customer_id r = None)"
  "is_guest_purchase (classify b r) = (customer_id r = None)"
  "is_valid_sale (classify b r) =
     (quantity r > 0 \<and> unit_price r > 0 \<and> \<not> startswith (invoice_no (standardize r)) ''C'')"
  "is_return (classify b r) = (quantity r < 0 \<and> \<not> is_adjustment (classify b r))"
  "customer_id (classify b r) = customer_id r"
  "quantity (classify b r) = quantity r"
  "unit_price (classify b r) = unit_price r"
  "invoice_no (classify b r) = invoice_no (standardize r)"
  by (simp_all add: classify_def etl_metadata_def business_flags_def standardize_def Let_def row_defs)

lemma c100_typed:
  "typed e \<lparr>InvoiceNo = Some ''C100'', StockCode = Some ''A1'', Description = de,
        Quantity = NNum (- 3), InvoiceDate = d, UnitPrice = NNum 5, CustomerID = NNaN, Country = co\<rparr>
   = \<lparr>InvoiceNo = Some ''C100'', StockCode = Some ''A1'', Description = de,
        Quantity = NNum (- 3), InvoiceDate = d, UnitPrice = NNum 5, CustomerID = NNaN, Country = co,
        invoice_date = to_datetime e d, quantity = - 3, unit_price = 5, customer_id = None, line_total = - 15\<rparr>"
  by (simp add: typed_def add_numeric_columns_def add_invoice_date_def row_defs to_numeric_def
        fillna_def astype_int_def astype_Int64_def Let_def)


lemma drop_duplicates_single: "drop_duplicates [x] = [x]"
  by (simp add: drop_duplicates_def)

lemma c100_survives:
  assumes "to_datetime e d \<noteq> None"
  shows "survivors e [\<lparr>InvoiceNo = Some ''C100'', StockCode = Some ''A1'', Description = de,
        Quantity = NNum (- 3), InvoiceDate = d, UnitPrice = NNum 5, CustomerID = NNaN, Country = co\<rparr>]
     = [typed e \<lparr>InvoiceNo = Some ''C100'', StockCode = Some ''A1'', Description = de,
        Quantity = NNum (- 3), InvoiceDate = d, UnitPrice = NNum 5, CustomerID = NNaN, Country = co\<rparr>]"
proof -
  from assms obtain y where y: "to_datetime e d = Some y" by auto
  show ?thesis
    by (simp add: survivors_def after_neg_price_def after_zero_qty_def after_suspicious_def
        typed_frame_single c100_typed suspicious_price_mask_def zero_qty_mask_def
        neg_price_mask_def all_null_def critical_present_def drop_duplicates_single y)
qed

lemma c100_castable:
  "castable_frame e [\<lparr>InvoiceNo = Some ''C100'', StockCode = Some ''A1'', Description = de,
        Quantity = NNum (- 3), InvoiceDate = d, UnitPrice = NNum 5, CustomerID = NNaN, Country = co\<rparr>]"
  by (simp add: castable_frame_def add_invoice_date_def row_defs to_numeric_def int64_castable_def)

lemma c100_invoice_no:
  "invoice_no (standardize (typed e \<lparr>InvoiceNo = Some ''C100'', StockCode = Some ''A1'', Description = de,
        Quantity = NNum (- 3), InvoiceDate = d, UnitPrice = NNum 5, CustomerID = NNaN, Country = co\<rparr>))
   = ''C100''"
  by (simp add: c100_typed standardize_def row_defs astype_str_def strip_def isspace_def upper_def
        upper_char_def lower_letters_def upper_letters_def)

section \<open>The business classifier\<close>

text \<open>
  C5.  The example of the specification: the row with invoice "C100", stock code "A1",
  quantity -3, unit price 5.00 and no customer id, whatever its other columns as long as
  its date parses, is staged, and its flags are is\_cancellation, not is\_adjustment,
  is\_guest\_purchase, not is\_valid\_sale, is\_return.
\<close>

theorem classifier_example_c100:
  assumes "to_datetime e d \<noteq> None"
  shows "\<exists>s. fst (transform_data e
                 [\<lparr>InvoiceNo = Some ''C100'', StockCode = Some ''A1'', Description = de,
                   Quantity = NNum (- 3), InvoiceDate = d, UnitPrice = NNum 5,
                   CustomerID = NNaN, Country = co\<rparr>] t) = Inr [s] \<and>
             is_cancellation s \<and> \<not> is_adjustment s \<and> is_guest_purchase s \<and>
             \<not> is_valid_sale s \<and> is_return s"
  using assms
  by (simp add: fst_transform_data c100_castable c100_survives business_flags_simps
        c100_invoice_no startswith_def) (simp add: c100_typed)

theorem classifier_example_c100_witness:
  "to_datetime sample_env (DStr sample_date) \<noteq> None \<and>
   (\<exists>s. fst (transform_data sample_env
                 [\<lparr>InvoiceNo = Some ''C100'', StockCode = Some ''A1'', Description = Some ''DISCOUNT'',
                   Quantity = NNum (- 3), InvoiceDate = DStr sample_date, UnitPrice = NNum 5,
                   CustomerID = NNaN, Country = Some ''France''\<rparr>] (DataQualityTracker ''B'')) = Inr [s] \<and>
             is_cancellation s \<and> \<not> is_adjustment s \<and> is_guest_purchase s \<and>
             \<not> is_valid_sale s \<and> is_return s)"
proof -
  have h: "to_datetime sample_env (DStr sample_date) \<noteq> None"
    by (simp add: to_datetime_def sample_env_def)
  show ?thesis
    using h classifier_example_c100 [OF h] by blast
qed

lemmas eval_defs =
  to_datetime_def to_numeric_def str_date_cell_def astype_int_def int64_castable_def astype_Int64_def
  isspace_def strip_def lower_letters_def upper_letters_def upper_char_def lower_char_def
  is_cased_def upper_def title_def startswith_def astype_str_def fillna_def
  add_invoice_date_def add_numeric_columns_def row_defs
  suspicious_price_mask_def zero_qty_mask_def neg_price_mask_def all_null_def critical_present_def
  drop_duplicates_def standardize_def business_flags_def etl_metadata_def classify_def typed_def
  typed_frame_def after_suspicious_def after_zero_qty_def after_neg_price_def survivors_def
  castable_frame_def Let_def DataQualityTracker_def

lemma transform_row_cancel:
  "fst (transform_data sample_env [row_cancel] (DataQualityTracker ''20240102_030405'')) = Inr [staged_cancel]"
  by (simp add: fst_transform_data eval_defs row_cancel_def staged_cancel_def sample_env_def sample_date_def)

lemma staged_is_classified:
  assumes "fst (transform_data e df t) = Inr out"
  shows "out = map (classify (tracker_batch_id t)) (survivors e df)"
  using assms by (simp add: fst_transform_data split: if_splits)

text \<open>
  C6, as the specification states it, fails: a staged cancellation with a negative
  quantity has is\_return true, not false.  The row below is invoice "c536379 " with
  quantity -1.
\<close>

theorem cancellation_not_return_counterexample:
  "fst (transform_data sample_env [row_cancel] (DataQualityTracker ''20240102_030405'')) = Inr [staged_cancel] \<and>
   startswith (invoice_no staged_cancel) ''C'' \<and> quantity staged_cancel < 0 \<and>
   is_cancellation staged_cancel = True \<and> is_return staged_cancel = True"
  by (simp add: transform_row_cancel) (simp add: staged_cancel_def startswith_def)

text \<open>
  C6, amended.  Every staged record whose invoice\_no begins with the cancellation marker
  and whose quantity is negative has both is\_cancellation and is\_return true.
\<close>

theorem cancellation_is_return:
  assumes "fst (transform_data e df t) = Inr out"
    and "s \<in> set out"
    and "startswith (invoice_no s) ''C''"
    and "quantity s < 0"
  shows "is_cancellation s \<and> is_return s"
proof -
  from staged_is_classified [OF assms(1)] assms(2)
  obtain r where "s = classify (tracker_batch_id t) r"
    by auto
  with assms(3,4) show ?thesis
    by (simp add: business_flags_simps)
qed

theorem cancellation_is_return_witness:
  "fst (transform_data sample_env [row_cancel] (DataQualityTracker ''20240102_030405'')) = Inr [staged_cancel] \<and>
   staged_cancel \<in> set [staged_cancel] \<and>
   startswith (invoice_no staged_cancel) ''C'' \<and> quantity staged_cancel < 0 \<and>
   is_cancellation staged_cancel \<and> is_return staged_cancel"
proof -
  have h1: "fst (transform_data sample_env [row_cancel] (DataQualityTracker ''20240102_030405'')) = Inr [staged_cancel]"
    by (rule transform_row_cancel)
  have h2: "staged_cancel \<in> set [staged_cancel]" by simp
  have h3: "startswith (invoice_no staged_cancel) ''C''"
    by (simp add: staged_cancel_def startswith_def)
  have h4: "quantity staged_cancel < 0"
    by (simp add: staged_cancel_def)
  from cancellation_is_return [OF h1 h2 h3 h4] h1 h2 h3 h4 show ?thesis by simp
qed

section \<open>Guest purchases\<close>

lemma set_drop_duplicates_from: "set (drop_duplicates_from seen xs) = set xs - set seen"
  by (induction xs arbitrary: seen) auto

lemma set_drop_duplicates: "set (drop_duplicates xs) = set xs"
  by (simp add: drop_duplicates_def set_drop_duplicates_from)

lemma passing_row_survives:
  assumes "r \<in> set df" and "passes_rules e r"
  shows "typed e r \<in> set (survivors e df)"
proof -
  from assms(2) have d: "invoice_date (add_invoice_date e r) \<noteq> None"
    by (simp add: passes_rules_def typed_def add_numeric_columns_def Let_def row_defs)
  with assms(1) have "typed e r \<in> set (typed_frame e df)"
    by (auto simp add: typed_frame_def typed_def)
  with assms(2) show ?thesis
    by (simp add: survivors_def after_neg_price_def after_zero_qty_def after_suspicious_def
          set_drop_duplicates passes_rules_def)
qed

lemma passes_rules_customer:
  "passes_rules e (r\<lparr>CustomerID := x\<rparr>) = passes_rules e r"
  by (simp add: passes_rules_def typed_def add_numeric_columns_def add_invoice_date_def Let_def
        row_defs suspicious_price_mask_def zero_qty_mask_def neg_price_mask_def all_null_def
        critical_present_def)

text \<open>
  C7.  In every staged record is\_guest\_purchase is true exactly when customer\_id is
  missing.  The customer id is no criterion of any rule: whether a row passes the rules
  does not depend on its CustomerID column, and a row without a customer id that passes
  them is staged, flagged as a guest purchase.
\<close>

theorem guest_invariant:
  assumes "fst (transform_data e df t) = Inr out"
  shows "(\<forall>s\<in>set out. is_guest_purchase s \<longleftrightarrow> customer_id s = None) \<and>
         (\<forall>r x. passes_rules e (r\<lparr>CustomerID := x\<rparr>) = passes_rules e r) \<and>
         (\<forall>r\<in>set df. passes_rules e r \<and> customer_id (typed e r) = None \<longrightarrow>
            classify (tracker_batch_id t) (typed e r) \<in> set out \<and>
            is_guest_purchase (classify (tracker_batch_id t) (typed e r)))"
proof -
  have out: "out = map (classify (tracker_batch_id t)) (survivors e df)"
    using assms by (rule staged_is_classified)
  have "\<forall>s\<in>set out. is_guest_purchase s \<longleftrightarrow> customer_id s = None"
    by (auto simp add: out business_flags_simps)
  moreover have "\<forall>r\<in>set df. passes_rules e r \<and> customer_id (typed e r) = None \<longrightarrow>
            classify (tracker_batch_id t) (typed e r) \<in> set out \<and>
            is_guest_purchase (classify (tracker_batch_id t) (typed e r))"
    by (auto simp add: out business_flags_simps dest: passing_row_survives)
  moreover have "\<forall>r x. passes_rules e (r\<lparr>CustomerID := x\<rparr>) = passes_rules e r"
    by (simp add: passes_rules_customer)
  ultimately show ?thesis
    by blast
qed

lemma transform_row_c100:
  "fst (transform_data sample_env [row_c100] (DataQualityTracker ''20240102_030405'')) =
     Inr [classify ''20240102_030405'' (typed sample_env row_c100)]"
  by (simp add: fst_transform_data eval_defs row_c100_def sample_env_def sample_date_def)

theorem guest_invariant_witness:
  "fst (transform_data sample_env [row_c100] (DataQualityTracker ''20240102_030405'')) =
     Inr [classify ''20240102_030405'' (typed sample_env row_c100)] \<and>
   is_guest_purchase (classify ''20240102_030405'' (typed sample_env row_c100)) =
     (customer_id (classify ''20240102_030405'' (typed sample_env row_c100)) = None) \<and>
   passes_rules sample_env (row_c100\<lparr>CustomerID := NNum 17850\<rparr>) = passes_rules sample_env row_c100 \<and>
   row_c100 \<in> set [row_c100] \<and> passes_rules sample_env row_c100 \<and>
   customer_id (typed sample_env row_c100) = None \<and>
   classify ''20240102_030405'' (typed sample_env row_c100) \<in>
     set [classify ''20240102_030405'' (typed sample_env row_c100)] \<and>
   is_guest_purchase (classify ''20240102_030405'' (typed sample_env row_c100))"
proof -
  have h: "fst (transform_data sample_env [row_c100] (DataQualityTracker ''20240102_030405'')) =
     Inr [classify ''20240102_030405'' (typed sample_env row_c100)]"
    by (rule transform_row_c100)
  have p: "passes_rules sample_env row_c100"
    by (simp add: passes_rules_def eval_defs row_c100_def sample_env_def sample_date_def)
  have c: "customer_id (typed sample_env row_c100) = None"
    by (simp add: eval_defs row_c100_def sample_env_def)
  have t: "tracker_batch_id (DataQualityTracker ''20240102_030405'') = ''20240102_030405''"
    by (simp add: DataQualityTracker_def)
  from guest_invariant [OF h] h p c show ?thesis
    unfolding t by auto
qed

section \<open>Counting rows\<close>


lemma metrics_transform_data:
  assumes "castable_frame e df"
  shows "metrics (snd (transform_data e df t)) = metrics t @ batch_metrics (tracker_batch_id t) e df"
  using assms
  by (simp add: transform_data_def Let_def split_def rule_simps castable_frame_def
        batch_metrics_def survivors_def after_neg_price_def after_zero_qty_def
        after_suspicious_def typed_frame_def)

lemma quarantine_transform_data':
  assumes "castable_frame e df"
  shows "quarantine_records (snd (transform_data e df t)) =
     quarantine_records t @ batch_quarantine (tracker_batch_id t) e df"
  using assms by (simp add: quarantine_transform_data batch_quarantine_def)

lemma new_metrics_append: "new_metrics t (t'\<lparr>metrics := metrics t @ ms\<rparr>) = ms"
  by (simp add: new_metrics_def)

lemma new_metrics_eq: "metrics t' = metrics t @ ms \<Longrightarrow> new_metrics t t' = ms"
  by (simp add: new_metrics_def)

lemma new_quarantine_eq: "quarantine_records t' = quarantine_records t @ qs \<Longrightarrow> new_quarantine t t' = qs"
  by (simp add: new_quarantine_def)

lemma rule_metric_counts:
  assumes "post \<le> pre"
  shows "dropped_count (rule_metric b rule cat note False pre post) = int pre - int post"
    and "quarantined_count (rule_metric b rule cat note False pre post) = 0"
    and "dropped_count (rule_metric b rule cat note True pre post) = 0"
    and "quarantined_count (rule_metric b rule cat note True pre post) = int pre - int post"
    and "rejected_count (rule_metric b rule cat note q pre post) = int pre - int post"
  using assms by (auto simp add: rule_metric_def dropped_count_def quarantined_count_def rejected_count_def)

lemma count_append:
  "dropped_count (xs @ ys) = dropped_count xs + dropped_count ys"
  "quarantined_count (xs @ ys) = quarantined_count xs + quarantined_count ys"
  "rejected_count (xs @ ys) = rejected_count xs + rejected_count ys"
  by (simp_all add: dropped_count_def quarantined_count_def rejected_count_def)

lemma frame_sizes:
  "length (typed_frame e df) \<le> length df"
  "length (after_suspicious e df) \<le> length (typed_frame e df)"
  "length (after_zero_qty e df) \<le> length (after_suspicious e df)"
  "length (after_neg_price e df) \<le> length (after_zero_qty e df)"
  "length (filter (\<lambda>r. \<not> all_null r) (after_neg_price e df)) \<le> length (after_neg_price e df)"
  "length (drop_duplicates (filter (\<lambda>r. \<not> all_null r) (after_neg_price e df)))
     \<le> length (filter (\<lambda>r. \<not> all_null r) (after_neg_price e df))"
  "length (survivors e df)
     \<le> length (drop_duplicates (filter (\<lambda>r. \<not> all_null r) (after_neg_price e df)))"
proof -
  show "length (typed_frame e df) \<le> length df"
    using length_filter_le [of "\<lambda>r. invoice_date r \<noteq> None" "map (add_invoice_date e) df"]
    by (simp add: typed_frame_def)
  show "length (after_suspicious e df) \<le> length (typed_frame e df)"
    unfolding after_suspicious_def by (rule length_filter_le)
  show "length (after_zero_qty e df) \<le> length (after_suspicious e df)"
    unfolding after_zero_qty_def by (rule length_filter_le)
  show "length (after_neg_price e df) \<le> length (after_zero_qty e df)"
    unfolding after_neg_price_def by (rule length_filter_le)
  show "length (filter (\<lambda>r. \<not> all_null r) (after_neg_price e df)) \<le> length (after_neg_price e df)"
    by (rule length_filter_le)
  show "length (drop_duplicates (filter (\<lambda>r. \<not> all_null r) (after_neg_price e df)))
     \<le> length (filter (\<lambda>r. \<not> all_null r) (after_neg_price e df))"
    by (rule length_drop_duplicates)
  show "length (survivors e df)
     \<le> length (drop_duplicates (filter (\<lambda>r. \<not> all_null r) (after_neg_price e df)))"
    unfolding survivors_def by (rule length_filter_le)
qed

lemma dropped_batch_metrics:
  "dropped_count (batch_metrics b e df) =
     (int (length df) - int (length (typed_frame e df))) +
     (int (length (after_neg_price e df)) - int (length (survivors e df)))"
  by (simp add: batch_metrics_def count_append rule_metric_counts frame_sizes)

lemma quarantined_batch_metrics:
  "quarantined_count (batch_metrics b e df) =
     int (length (typed_frame e df)) - int (length (after_neg_price e df))"
  by (simp add: batch_metrics_def count_append rule_metric_counts frame_sizes)

lemma length_batch_quarantine:
  "int (length (batch_quarantine b e df)) =
     int (length (typed_frame e df)) - int (length (after_neg_price e df))"
proof -
  have 1: "int (length (filter suspicious_price_mask (typed_frame e df))) =
      int (length (typed_frame e df)) - int (length (after_suspicious e df))"
    using length_filter_compl [of suspicious_price_mask "typed_frame e df"]
    by (simp add: after_suspicious_def)
  have 2: "int (length (filter zero_qty_mask (after_suspicious e df))) =
      int (length (after_suspicious e df)) - int (length (after_zero_qty e df))"
    using length_filter_compl [of zero_qty_mask "after_suspicious e df"]
    by (simp add: after_zero_qty_def)
  have 3: "int (length (filter neg_price_mask (after_zero_qty e df))) =
      int (length (after_zero_qty e df)) - int (length (after_neg_price e df))"
    using length_filter_compl [of neg_price_mask "after_zero_qty e df"]
    by (simp add: after_neg_price_def)
  show ?thesis
    using 1 2 3 by (simp add: batch_quarantine_def)
qed

lemma castable_of_Inr:
  "fst (transform_data e df t) = Inr out \<Longrightarrow> castable_frame e df"
  by (simp add: fst_transform_data split: if_splits)

lemma transform_conserves:
  assumes "fst (transform_data e df t) = Inr out"
  shows "int (length df) = int (length out)
           + int (length (new_quarantine t (snd (transform_data e df t))))
           + dropped_count (new_metrics t (snd (transform_data e df t)))"
proof -
  have c: "castable_frame e df" using assms by (rule castable_of_Inr)
  have out: "length out = length (survivors e df)"
    using staged_is_classified [OF assms] by simp
  have q: "new_quarantine t (snd (transform_data e df t)) = batch_quarantine (tracker_batch_id t) e df"
    by (rule new_quarantine_eq) (rule quarantine_transform_data' [OF c])
  have m: "new_metrics t (snd (transform_data e df t)) = batch_metrics (tracker_batch_id t) e df"
    by (rule new_metrics_eq) (rule metrics_transform_data [OF c])
  show ?thesis
    by (simp add: q m out length_batch_quarantine dropped_batch_metrics)
qed

section \<open>Metrics\<close>

lemma emission_contract_rule_metric:
  "emission_contract rule q pre post (rule_metric b rule cat note q pre post)"
  by (simp add: emission_contract_def rule_metric_def)

lemma follows_contract_intro:
  assumes "metrics (snd res) = metrics t @ rule_metric b rule cat note q (length df) (length (fst res))"
  shows "follows_contract rule q df t res"
  using assms by (simp add: follows_contract_def new_metrics_def emission_contract_rule_metric)

lemma stage_conserves_intro:
  assumes "metrics (snd res) = metrics t @ rule_metric b rule cat note q (length df) (length (fst res))"
    and "length (fst res) \<le> length df"
  shows "stage_conserves df t res"
  using assms by (simp add: stage_conserves_def new_metrics_def rule_metric_counts)

text \<open>
  C3.  Each of the seven rule invocations of a batch follows the contract of its metric:
  when it rejects a row it appends exactly one metric, whose rows\_processed is the size of
  the frame before the rule, rows\_passed the size after, and which has the number of
  rejections in rows\_quarantined (a quarantine rule) or rows\_dropped (a drop rule) and 0
  in the other; when it rejects none it appends nothing.  The metrics of a transformation
  are those of its seven invocations, in order.
\<close>

theorem metric_emission:
  "follows_contract ''remove_unparseable_dates'' False df1 t (remove_unparseable_dates df1 t) \<and>
   follows_contract ''quarantine_suspicious_unit_price'' True df t
     (quarantine_suspicious_unit_price e df t) \<and>
   follows_contract ''quarantine_zero_quantity'' True df t (quarantine_zero_quantity e df t) \<and>
   follows_contract ''quarantine_negative_unit_price'' True df t
     (quarantine_negative_unit_price e df t) \<and>
   follows_contract ''remove_all_null_rows'' False df t (remove_all_null_rows df t) \<and>
   follows_contract ''remove_exact_duplicates'' False df t (remove_exact_duplicates df t) \<and>
   follows_contract ''remove_missing_critical'' False df t (remove_missing_critical df t) \<and>
   (castable_frame e raw \<longrightarrow>
      metrics (snd (transform_data e raw t)) = metrics t @ batch_metrics (tracker_batch_id t) e raw)"
proof -
  have 1: "follows_contract ''remove_unparseable_dates'' False df1 t (remove_unparseable_dates df1 t)"
    by (rule follows_contract_intro) (simp add: rule_simps)
  have 2: "follows_contract ''quarantine_suspicious_unit_price'' True df t
     (quarantine_suspicious_unit_price e df t)"
    by (rule follows_contract_intro) (simp add: rule_simps)
  have 3: "follows_contract ''quarantine_zero_quantity'' True df t (quarantine_zero_quantity e df t)"
    by (rule follows_contract_intro) (simp add: rule_simps)
  have 4: "follows_contract ''quarantine_negative_unit_price'' True df t
     (quarantine_negative_unit_price e df t)"
    by (rule follows_contract_intro) (simp add: rule_simps)
  have 5: "follows_contract ''remove_all_null_rows'' False df t (remove_all_null_rows df t)"
    by (rule follows_contract_intro) (simp add: rule_simps)
  have 6: "follows_contract ''remove_exact_duplicates'' False df t (remove_exact_duplicates df t)"
    by (rule follows_contract_intro) (simp add: rule_simps)
  have 7: "follows_contract ''remove_missing_critical'' False df t (remove_missing_critical df t)"
    by (rule follows_contract_intro) (simp add: rule_simps)
  from 1 2 3 4 5 6 7 show ?thesis
    by (simp add: metrics_transform_data)
qed

lemma sample_rows_castable: "castable_frame sample_env sample_rows"
  by (simp add: castable_frame_def sample_rows_def sample_env_def sample_date_def
        row_sale_def row_c100_def row_zero_qty_def row_bad_date_def row_suspicious_def
        row_neg_price_def row_no_stock_code_def
        add_invoice_date_def row_defs to_datetime_def to_numeric_def int64_castable_def)

theorem metric_emission_witness:
  "castable_frame sample_env sample_rows \<and>
   follows_contract ''quarantine_zero_quantity'' True (typed_frame sample_env sample_rows)
     (DataQualityTracker ''B'')
     (quarantine_zero_quantity sample_env (typed_frame sample_env sample_rows) (DataQualityTracker ''B'')) \<and>
   metrics (snd (transform_data sample_env sample_rows (DataQualityTracker ''B''))) =
     metrics (DataQualityTracker ''B'') @
     batch_metrics (tracker_batch_id (DataQualityTracker ''B'')) sample_env sample_rows"
  using sample_rows_castable
    metric_emission [of "[]" "DataQualityTracker ''B''" "typed_frame sample_env sample_rows"
      sample_env sample_rows]
  by simp

section \<open>Quarantine\<close>









lemma later_frames_subset:
  "set (after_zero_qty e df) \<subseteq> set (after_suspicious e df)"
  "set (after_neg_price e df) \<subseteq> set (after_zero_qty e df)"
  by (auto simp add: after_zero_qty_def after_neg_price_def)






section \<open>Statements and tables\<close>

lemma run_sql_query_simps:
  "fst (run_sql_query e f db) = sql_ok e (executed db)"
  "executed (snd (run_sql_query e f db)) = Suc (executed db)"
  "sql_ok e (executed db) \<Longrightarrow> snd (run_sql_query e f db) = (f db)\<lparr>executed := Suc (executed db)\<rparr>"
  "\<not> sql_ok e (executed db) \<Longrightarrow> snd (run_sql_query e f db) = db\<lparr>executed := Suc (executed db)\<rparr>"
  by (simp_all add: run_sql_query_def)

lemma load_chunks_batch_log:
  "meta_etl_batch_log (snd (load_chunks e df_l ixs db)) = meta_etl_batch_log db"
proof (induction ixs arbitrary: db)
  case Nil
  then show ?case by simp
next
  case (Cons i ixs)
  show ?case
    by (cases "sql_ok e (executed db)") (simp_all add: Let_def run_sql_query_def Cons.IH)
qed

lemma insert_rows_quarantine_batch_log:
  "meta_etl_batch_log
     (snd (insert_rows e (\<lambda>r d. d\<lparr>dq_quarantine_sales := dq_quarantine_sales d @ [r]\<rparr>) rs db)) =
   meta_etl_batch_log db"
proof (induction rs arbitrary: db)
  case Nil
  then show ?case by simp
next
  case (Cons r rs)
  show ?case
    by (cases "sql_ok e (executed db)") (simp_all add: Let_def run_sql_query_def Cons.IH)
qed

lemma insert_rows_metrics_batch_log:
  "meta_etl_batch_log
     (snd (insert_rows e (\<lambda>m d. d\<lparr>dq_metrics := dq_metrics d @ [m]\<rparr>) ms db)) =
   meta_etl_batch_log db"
proof (induction ms arbitrary: db)
  case Nil
  then show ?case by simp
next
  case (Cons m ms)
  show ?case
    by (cases "sql_ok e (executed db)") (simp_all add: Let_def run_sql_query_def Cons.IH)
qed

lemma loads_batch_log:
  "meta_etl_batch_log (snd (load_to_staging e df db)) = meta_etl_batch_log db"
  "meta_etl_batch_log (snd (load_quarantine e t db)) = meta_etl_batch_log db"
  "meta_etl_batch_log (snd (load_dq_metrics e t db)) = meta_etl_batch_log db"
  by (simp_all add: load_to_staging_def load_quarantine_def load_dq_metrics_def Let_def
        load_chunks_batch_log insert_rows_quarantine_batch_log insert_rows_metrics_batch_log)

lemma get_last_tables:
  "stg_retail_sales (snd (get_last_successful_batch_timestamp e db)) = stg_retail_sales db"
  "dq_quarantine_sales (snd (get_last_successful_batch_timestamp e db)) = dq_quarantine_sales db"
  "dq_metrics (snd (get_last_successful_batch_timestamp e db)) = dq_metrics db"
  "meta_etl_batch_log (snd (get_last_successful_batch_timestamp e db)) = meta_etl_batch_log db"
  "executed (snd (get_last_successful_batch_timestamp e db)) = Suc (executed db)"
  by (simp_all add: get_last_successful_batch_timestamp_def Let_def split: list.splits)

lemma log_batch_execution_simps:
  "executed (snd (log_batch_execution e st a b c msg db)) = Suc (executed db)"
  "sql_ok e (executed db) \<Longrightarrow>
     meta_etl_batch_log (snd (log_batch_execution e st a b c msg db)) =
       meta_etl_batch_log db @
       [\<lparr>b_batch_id = run_batch_id e, status = st, rows_extracted = a,
         rows_loaded_staging = b, b_rows_quarantined = c,
         error_message = (case msg of None \<Rightarrow> None | Some m \<Rightarrow> if m = [] then None else Some m)\<rparr>]"
  "stg_retail_sales (snd (log_batch_execution e st a b c msg db)) = stg_retail_sales db"
  "dq_quarantine_sales (snd (log_batch_execution e st a b c msg db)) = dq_quarantine_sales db"
  "dq_metrics (snd (log_batch_execution e st a b c msg db)) = dq_metrics db"
  by (simp_all add: log_batch_execution_def run_sql_query_def)

lemma run_as_process:
  assumes "connect_ok e"
  shows "run_etl_pipeline e mode db =
     process_extracted e (extracted_frame e mode db) (db_at_extraction e mode db)"
  using assms
  by (simp add: run_etl_pipeline_def extracted_frame_def db_at_extraction_def Let_def split_def)

lemma db_at_extraction_batch_log:
  "meta_etl_batch_log (db_at_extraction e mode db) = meta_etl_batch_log (create_tables e db)"
  by (simp add: db_at_extraction_def get_last_tables)

text \<open>The exceptions of the transformation have a message.\<close>

lemma transform_exn_message:
  assumes "fst (transform_data e df t) = Inl ex"
  shows "str_exn ex \<noteq> []"
  using assms by (auto simp add: fst_transform_data split: if_splits)

lemma process_extracted_batch_log:
  assumes "sql_ok e (executed (snd (process_extracted e x db)) - 1)"
  shows "meta_etl_batch_log (snd (process_extracted e x db)) =
     meta_etl_batch_log db @ [final_record e x (fst (process_extracted e x db))]"
proof (cases x)
  case None
  with assms show ?thesis
    by (simp add: process_extracted_def pipeline_failed_def final_record_def
          log_batch_execution_simps)
next
  case (Some df)
  show ?thesis
  proof (cases "df = []")
    case True
    with Some assms show ?thesis
      by (simp add: process_extracted_def final_record_def log_batch_execution_simps)
  next
    case False
    obtain res t where tr: "transform_data e df (DataQualityTracker (run_batch_id e)) = (res, t)"
      by (cases "transform_data e df (DataQualityTracker (run_batch_id e))")
    show ?thesis
    proof (cases res)
      case (Inl ex)
      then have "str_exn ex \<noteq> []"
        using transform_exn_message [of e df "DataQualityTracker (run_batch_id e)" ex] tr by simp
      with Some False tr Inl assms show ?thesis
        by (simp add: process_extracted_def pipeline_failed_def final_record_def
              log_batch_execution_simps)
    next
      case (Inr out)
      let ?db1 = "snd (load_to_staging e out db)"
      let ?db2 = "snd (load_quarantine e t ?db1)"
      let ?db3 = "snd (load_dq_metrics e t ?db2)"
      let ?ok = "fst (load_to_staging e out db) \<and> fst (load_quarantine e t ?db1) \<and>
                 fst (load_dq_metrics e t ?db2)"
      have pe: "process_extracted e x db =
          (if \<not> ?ok then pipeline_failed e (Exception ''Loading failed'') ?db3
           else (True, snd (log_batch_execution e ''SUCCESS'' (int (length df)) (int (length out))
                              (int (length (quarantine_records t))) None ?db3)))"
        using Some False tr Inr by (simp add: process_extracted_def Let_def split_def)
      have log3: "meta_etl_batch_log ?db3 = meta_etl_batch_log db"
        by (simp add: loads_batch_log)
      show ?thesis
      proof (cases ?ok)
        case True
        with assms pe have "sql_ok e (executed ?db3)"
          by (simp add: log_batch_execution_simps)
        with True pe Some False tr Inr log3 show ?thesis
          by (simp add: final_record_def log_batch_execution_simps)
      next
        case no: False
        with assms pe have "sql_ok e (executed ?db3)"
          by (simp add: pipeline_failed_def log_batch_execution_simps)
        with no pe Some False tr Inr log3 show ?thesis
          by (simp add: final_record_def pipeline_failed_def log_batch_execution_simps)
      qed
    qed
  qed
qed


section \<open>A database that executes every statement\<close>

lemma create_tables_eq:
  assumes "sql_ok e (executed db + 1)" and "sql_ok e (executed db + 2)"
    and "sql_ok e (executed db + 3)" and "sql_ok e (executed db + 4)"
  shows "create_tables e db =
     \<lparr>stg_retail_sales = [], dq_quarantine_sales = [], dq_metrics = [],
      meta_etl_batch_log = [], executed = executed db + 5\<rparr>"
proof -
  from assms have ok: "sql_ok e (Suc (executed db))" "sql_ok e (Suc (Suc (executed db)))"
    "sql_ok e (Suc (Suc (Suc (executed db))))" "sql_ok e (Suc (Suc (Suc (Suc (executed db)))))"
    by (simp_all add: eval_nat_numeral)
  show ?thesis
    using ok
    by (cases "sql_ok e (executed db)")
       (simp_all add: create_tables_def create_retail_dwh_schema_def create_staging_table_def
          create_dq_quarantine_table_def create_dq_metrics_table_def
          create_meta_batch_log_table_def run_sql_query_def eval_nat_numeral)
qed

lemma executed_emptied: "executed (emptied db) = executed db"
  by (simp add: emptied_def)

lemma concat_chunks:
  assumes "0 < c"
  shows "concat (map (\<lambda>i. take (min (i * c + c) (length xs) - i * c) (drop (i * c) xs)) [0..<n]) =
     take (n * c) xs"
proof (induction n)
  case 0
  then show ?case by simp
next
  case (Suc n)
  have "take (min (n * c + c) (length xs) - n * c) (drop (n * c) xs) = take c (drop (n * c) xs)"
  proof (cases "n * c + c \<le> length xs")
    case True
    then show ?thesis by (simp add: min_def)
  next
    case False
    then have "min (n * c + c) (length xs) - n * c = length xs - n * c"
      by (simp add: min_def)
    moreover have "length (drop (n * c) xs) \<le> c"
      using False by simp
    ultimately show ?thesis by simp
  qed
  moreover have "take (Suc n * c) xs = take (n * c) xs @ take c (drop (n * c) xs)"
    using take_add [of "n * c" c xs] by (simp add: add.commute)
  ultimately show ?case
    using Suc.IH by simp
qed

lemma total_chunks_cover:
  assumes "0 < c"
  shows "(n::nat) \<le> ((n + c - 1) div c) * c"
proof -
  have "n + c - 1 < ((n + c - 1) div c) * c + c"
    using assms by (metis add.commute div_mult_mod_eq mod_less_divisor add_less_cancel_left mult.commute)
  then show ?thesis using assms by linarith
qed

lemma load_chunks_all_ok:
  assumes "\<forall>n. sql_ok e n"
  shows "fst (load_chunks e df_l ixs db) \<and>
     stg_retail_sales (snd (load_chunks e df_l ixs db)) =
       stg_retail_sales db @
       concat (map (\<lambda>i. take (min (i * chunk_size + chunk_size) (length df_l) - i * chunk_size)
                            (drop (i * chunk_size) df_l)) ixs) \<and>
     dq_quarantine_sales (snd (load_chunks e df_l ixs db)) = dq_quarantine_sales db \<and>
     dq_metrics (snd (load_chunks e df_l ixs db)) = dq_metrics db"
  using assms
  by (induction ixs arbitrary: db) (simp_all add: Let_def run_sql_query_def)

lemma load_to_staging_all_ok:
  assumes "\<forall>n. sql_ok e n"
  shows "fst (load_to_staging e df db)"
    and "stg_retail_sales (snd (load_to_staging e df db)) = stg_retail_sales db @ map df_load df"
    and "dq_quarantine_sales (snd (load_to_staging e df db)) = dq_quarantine_sales db"
    and "dq_metrics (snd (load_to_staging e df db)) = dq_metrics db"
proof -
  have c: "0 < chunk_size" by (simp add: chunk_size_def)
  have "take (((length (map df_load df) + chunk_size - 1) div chunk_size) * chunk_size)
          (map df_load df) = map df_load df"
    using total_chunks_cover [OF c, of "length (map df_load df)"] by simp
  then show "stg_retail_sales (snd (load_to_staging e df db)) = stg_retail_sales db @ map df_load df"
    using load_chunks_all_ok [OF assms, of "map df_load df"
            "[0..<(length (map df_load df) + chunk_size - 1) div chunk_size]" db]
      concat_chunks [OF c, of "map df_load df"
            "(length (map df_load df) + chunk_size - 1) div chunk_size"]
    by (simp add: load_to_staging_def Let_def)
qed (simp_all add: load_to_staging_def Let_def load_chunks_all_ok [OF assms])

lemma insert_quarantine_all_ok:
  assumes "\<forall>n. sql_ok e n"
  shows "fst (insert_rows e (\<lambda>r d. d\<lparr>dq_quarantine_sales := dq_quarantine_sales d @ [r]\<rparr>) rs db) \<and>
     dq_quarantine_sales
       (snd (insert_rows e (\<lambda>r d. d\<lparr>dq_quarantine_sales := dq_quarantine_sales d @ [r]\<rparr>) rs db)) =
       dq_quarantine_sales db @ rs \<and>
     stg_retail_sales
       (snd (insert_rows e (\<lambda>r d. d\<lparr>dq_quarantine_sales := dq_quarantine_sales d @ [r]\<rparr>) rs db)) =
       stg_retail_sales db \<and>
     dq_metrics
       (snd (insert_rows e (\<lambda>r d. d\<lparr>dq_quarantine_sales := dq_quarantine_sales d @ [r]\<rparr>) rs db)) =
       dq_metrics db"
  using assms
  by (induction rs arbitrary: db) (simp_all add: Let_def run_sql_query_def)

lemma insert_metrics_all_ok:
  assumes "\<forall>n. sql_ok e n"
  shows "fst (insert_rows e (\<lambda>m d. d\<lparr>dq_metrics := dq_metrics d @ [m]\<rparr>) ms db) \<and>
     dq_metrics (snd (insert_rows e (\<lambda>m d. d\<lparr>dq_metrics := dq_metrics d @ [m]\<rparr>) ms db)) =
       dq_metrics db @ ms \<and>
     stg_retail_sales (snd (insert_rows e (\<lambda>m d. d\<lparr>dq_metrics := dq_metrics d @ [m]\<rparr>) ms db)) =
       stg_retail_sales db \<and>
     dq_quarantine_sales (snd (insert_rows e (\<lambda>m d. d\<lparr>dq_metrics := dq_metrics d @ [m]\<rparr>) ms db)) =
       dq_quarantine_sales db"
  using assms
  by (induction ms arbitrary: db) (simp_all add: Let_def run_sql_query_def)

lemma load_quarantine_all_ok:
  assumes "\<forall>n. sql_ok e n"
  shows "fst (load_quarantine e t db)"
    and "dq_quarantine_sales (snd (load_quarantine e t db)) = dq_quarantine_sales db @ quarantine_records t"
    and "stg_retail_sales (snd (load_quarantine e t db)) = stg_retail_sales db"
    and "dq_metrics (snd (load_quarantine e t db)) = dq_metrics db"
  by (simp_all add: load_quarantine_def insert_quarantine_all_ok [OF assms])

lemma load_dq_metrics_all_ok:
  assumes "\<forall>n. sql_ok e n"
  shows "fst (load_dq_metrics e t db)"
    and "dq_metrics (snd (load_dq_metrics e t db)) = dq_metrics db @ metrics t"
    and "stg_retail_sales (snd (load_dq_metrics e t db)) = stg_retail_sales db"
    and "dq_quarantine_sales (snd (load_dq_metrics e t db)) = dq_quarantine_sales db"
  by (simp_all add: load_dq_metrics_def insert_metrics_all_ok [OF assms])

section \<open>The batch record\<close>

text \<open>
  C8, as stated, fails: a run that cannot open its connection ends failed and writes no
  batch record.
\<close>

theorem no_connection_no_batch_record_counterexample:
  "fst (run_etl_pipeline (sample_env\<lparr>connect_ok := False\<rparr>) ''full'' empty_db) = False \<and>
   meta_etl_batch_log (snd (run_etl_pipeline (sample_env\<lparr>connect_ok := False\<rparr>) ''full'' empty_db)) = []"
  by (simp add: run_etl_pipeline_def sample_env_def empty_db_def)

text \<open>
  C8, amended.  A run that has its connection, and whose last statement (the INSERT into
  the batch log) the database executes, adds exactly one record to the batch log the
  tables were set up with.  The record is of this batch; the run returns True exactly
  when its status is SUCCESS or SUCCESS\_NO\_DATA, and False exactly when it is FAILED
  with an error message.  A failed extraction is recorded as FAILED with "Extraction
  failed", an exception of the transformation as FAILED with the exception's message, a
  failed load as FAILED with "Loading failed"; an empty frame gives SUCCESS\_NO\_DATA.
\<close>

theorem batch_finalization:
  assumes "connect_ok e"
    and "sql_ok e (executed (snd (run_etl_pipeline e mode db)) - 1)"
  shows "\<exists>b. meta_etl_batch_log (snd (run_etl_pipeline e mode db)) =
              meta_etl_batch_log (create_tables e db) @ [b] \<and>
            b_batch_id b = run_batch_id e \<and>
            fst (run_etl_pipeline e mode db) =
              (status b = ''SUCCESS'' \<or> status b = ''SUCCESS_NO_DATA'') \<and>
            (\<not> fst (run_etl_pipeline e mode db)) =
              (status b = ''FAILED'' \<and> error_message b \<noteq> None) \<and>
            (extracted_frame e mode db = None \<longrightarrow>
               status b = ''FAILED'' \<and> error_message b = Some ''Extraction failed'') \<and>
            (extracted_frame e mode db = Some [] \<longrightarrow>
               status b = ''SUCCESS_NO_DATA'' \<and> rows_extracted b = 0) \<and>
            (\<forall>df ex. extracted_frame e mode db = Some df \<and> df \<noteq> [] \<and>
               fst (transform_data e df (DataQualityTracker (run_batch_id e))) = Inl ex \<longrightarrow>
               status b = ''FAILED'' \<and> error_message b = Some (str_exn ex)) \<and>
            (\<forall>df out. extracted_frame e mode db = Some df \<and> df \<noteq> [] \<and>
               fst (transform_data e df (DataQualityTracker (run_batch_id e))) = Inr out \<longrightarrow>
               (if fst (run_etl_pipeline e mode db)
                then status b = ''SUCCESS'' \<and> rows_extracted b = int (length df) \<and>
                     rows_loaded_staging b = int (length out)
                else status b = ''FAILED'' \<and> error_message b = Some ''Loading failed''))"
proof -
  let ?x = "extracted_frame e mode db"
  let ?d = "db_at_extraction e mode db"
  let ?r = "run_etl_pipeline e mode db"
  define b where "b = final_record e ?x (fst ?r)"
  have run: "?r = process_extracted e ?x ?d"
    by (rule run_as_process [OF assms(1)])
  have log: "meta_etl_batch_log (snd ?r) = meta_etl_batch_log (create_tables e db) @ [b]"
    using process_extracted_batch_log [of e ?x ?d] assms(2) run
    by (simp add: db_at_extraction_batch_log b_def)
  have id: "b_batch_id b = run_batch_id e"
    by (simp add: b_def final_record_def split: option.splits sum.splits prod.splits)
  have props:
    "fst ?r = (status b = ''SUCCESS'' \<or> status b = ''SUCCESS_NO_DATA'') \<and>
     (\<not> fst ?r) = (status b = ''FAILED'' \<and> error_message b \<noteq> None) \<and>
     (?x = None \<longrightarrow> status b = ''FAILED'' \<and> error_message b = Some ''Extraction failed'') \<and>
     (?x = Some [] \<longrightarrow> status b = ''SUCCESS_NO_DATA'' \<and> rows_extracted b = 0) \<and>
     (\<forall>df ex. ?x = Some df \<and> df \<noteq> [] \<and>
        fst (transform_data e df (DataQualityTracker (run_batch_id e))) = Inl ex \<longrightarrow>
        status b = ''FAILED'' \<and> error_message b = Some (str_exn ex)) \<and>
     (\<forall>df out. ?x = Some df \<and> df \<noteq> [] \<and>
        fst (transform_data e df (DataQualityTracker (run_batch_id e))) = Inr out \<longrightarrow>
        (if fst ?r
         then status b = ''SUCCESS'' \<and> rows_extracted b = int (length df) \<and>
              rows_loaded_staging b = int (length out)
         else status b = ''FAILED'' \<and> error_message b = Some ''Loading failed''))"
  proof (cases ?x)
    case None
    then show ?thesis
      using run by (simp add: b_def final_record_def process_extracted_def pipeline_failed_def)
  next
    case (Some df)
    show ?thesis
    proof (cases "df = []")
      case True
      with Some show ?thesis
        using run by (simp add: b_def final_record_def process_extracted_def)
    next
      case False
      obtain res t where tr: "transform_data e df (DataQualityTracker (run_batch_id e)) = (res, t)"
        by (cases "transform_data e df (DataQualityTracker (run_batch_id e))")
      show ?thesis
      proof (cases res)
        case (Inl ex)
        with Some False tr show ?thesis
          using run by (simp add: b_def final_record_def process_extracted_def pipeline_failed_def)
      next
        case (Inr out)
        with Some False tr show ?thesis
          by (simp add: b_def final_record_def)
      qed
    qed
  qed
  show ?thesis
    apply (rule exI [of _ b])
    apply (rule conjI, rule log)
    apply (rule conjI, rule id)
    apply (rule props)
    done
qed

lemma failed_extraction_frame:
  "extracted_frame (sample_env\<lparr>csv_file := None\<rparr>) ''full'' empty_db = None"
  by (simp add: extracted_frame_def extract_data_def)

theorem batch_finalization_witness:
  "connect_ok (sample_env\<lparr>csv_file := None\<rparr>) \<and>
   sql_ok (sample_env\<lparr>csv_file := None\<rparr>)
     (executed (snd (run_etl_pipeline (sample_env\<lparr>csv_file := None\<rparr>) ''full'' empty_db)) - 1) \<and>
   extracted_frame (sample_env\<lparr>csv_file := None\<rparr>) ''full'' empty_db = None \<and>
   (\<exists>b. meta_etl_batch_log (snd (run_etl_pipeline (sample_env\<lparr>csv_file := None\<rparr>) ''full'' empty_db)) =
          meta_etl_batch_log (create_tables (sample_env\<lparr>csv_file := None\<rparr>) empty_db) @ [b] \<and>
        status b = ''FAILED'' \<and> error_message b = Some ''Extraction failed'')"
proof -
  have h1: "connect_ok (sample_env\<lparr>csv_file := None\<rparr>)"
    by (simp add: sample_env_def)
  have h2: "sql_ok (sample_env\<lparr>csv_file := None\<rparr>)
     (executed (snd (run_etl_pipeline (sample_env\<lparr>csv_file := None\<rparr>) ''full'' empty_db)) - 1)"
    by (simp add: sample_env_def)
  from batch_finalization [OF h1 h2] failed_extraction_frame h1 h2 show ?thesis
    by blast
qed

section \<open>The tables at the start of a run\<close>

subsection \<open>Runs that leave the tables as they were\<close>

lemma refused_drop_run:
  "(case run_etl_pipeline refused_drop_env ''incremental'' loaded_db of
      (ok, d) \<Rightarrow> (ok, stg_retail_sales d, meta_etl_batch_log d)) =
   (True, stg_retail_sales loaded_db,
    meta_etl_batch_log loaded_db @
    [\<lparr>b_batch_id = ''20240102_030405'', status = ''SUCCESS_NO_DATA'', rows_extracted = 0,
      rows_loaded_staging = 0, b_rows_quarantined = 0,
      error_message = Some ''No new data to process''\<rparr>])"
  by code_simp

text \<open>
  C10, as stated for every invocation, fails.  A run that cannot open its connection
  sends no statement, and the database is afterwards what it was, its staged row and its
  batch record included.  A run whose DROP/CREATE statements for the staging and the
  batch-log table the database refuses goes on with the old rows in place: in incremental
  mode the cursor query finds the earlier batch, nothing is newer, and the run ends
  SUCCESS\_NO\_DATA with the old staged row and the old batch record still there.
\<close>

theorem tables_survive_counterexample:
  "stg_retail_sales loaded_db \<noteq> [] \<and> meta_etl_batch_log loaded_db \<noteq> [] \<and>
   run_etl_pipeline no_connection_env ''full'' loaded_db = (False, loaded_db) \<and>
   run_etl_pipeline no_connection_env ''incremental'' loaded_db = (False, loaded_db) \<and>
   fst (run_etl_pipeline refused_drop_env ''incremental'' loaded_db) = True \<and>
   stg_retail_sales (snd (run_etl_pipeline refused_drop_env ''incremental'' loaded_db)) =
     stg_retail_sales loaded_db \<and>
   meta_etl_batch_log (snd (run_etl_pipeline refused_drop_env ''incremental'' loaded_db)) =
     meta_etl_batch_log loaded_db @
     [\<lparr>b_batch_id = ''20240102_030405'', status = ''SUCCESS_NO_DATA'', rows_extracted = 0,
       rows_loaded_staging = 0, b_rows_quarantined = 0,
       error_message = Some ''No new data to process''\<rparr>]"
proof -
  obtain ok d where r: "run_etl_pipeline refused_drop_env ''incremental'' loaded_db = (ok, d)"
    by (cases "run_etl_pipeline refused_drop_env ''incremental'' loaded_db")
  have a: "ok = True" "stg_retail_sales d = stg_retail_sales loaded_db"
    "meta_etl_batch_log d =
       meta_etl_batch_log loaded_db @
       [\<lparr>b_batch_id = ''20240102_030405'', status = ''SUCCESS_NO_DATA'', rows_extracted = 0,
         rows_loaded_staging = 0, b_rows_quarantined = 0,
         error_message = Some ''No new data to process''\<rparr>]"
    using refused_drop_run by (simp_all add: r)
  have l: "stg_retail_sales loaded_db \<noteq> []" "meta_etl_batch_log loaded_db \<noteq> []"
    by (simp_all add: loaded_db_def)
  have c: "run_etl_pipeline no_connection_env ''full'' loaded_db = (False, loaded_db)"
    "run_etl_pipeline no_connection_env ''incremental'' loaded_db = (False, loaded_db)"
    by (simp_all add: run_etl_pipeline_def no_connection_env_def static_csv_env_def)
  show ?thesis
    using a l c by (simp add: r)
qed

subsection \<open>The refresh\<close>

text \<open>
  C10, amended.  In a run that has its connection, with a database that executes the four
  DROP/CREATE statements, the staging, quarantine, metrics and batch-log tables are empty
  when the extraction begins, whatever the mode, and nothing of what they held before has
  any effect on the run: it ends as it would on empty tables.
\<close>

theorem destructive_refresh:
  assumes "connect_ok e"
    and "sql_ok e (executed db + 1)" and "sql_ok e (executed db + 2)"
    and "sql_ok e (executed db + 3)" and "sql_ok e (executed db + 4)"
  shows "stg_retail_sales (db_at_extraction e mode db) = [] \<and>
         dq_quarantine_sales (db_at_extraction e mode db) = [] \<and>
         dq_metrics (db_at_extraction e mode db) = [] \<and>
         meta_etl_batch_log (db_at_extraction e mode db) = [] \<and>
         run_etl_pipeline e mode db =
           process_extracted e (extracted_frame e mode db) (db_at_extraction e mode db) \<and>
         run_etl_pipeline e mode db = run_etl_pipeline e mode (emptied db)"
proof -
  have c: "create_tables e db =
     \<lparr>stg_retail_sales = [], dq_quarantine_sales = [], dq_metrics = [],
      meta_etl_batch_log = [], executed = executed db + 5\<rparr>"
    using assms(2-5) by (rule create_tables_eq)
  have "create_tables e (emptied db) =
     \<lparr>stg_retail_sales = [], dq_quarantine_sales = [], dq_metrics = [],
      meta_etl_batch_log = [], executed = executed (emptied db) + 5\<rparr>"
    using assms(2-5) by (intro create_tables_eq) (simp_all add: executed_emptied)
  then have same: "create_tables e (emptied db) = create_tables e db"
    by (simp add: c executed_emptied)
  have "run_etl_pipeline e mode db = run_etl_pipeline e mode (emptied db)"
    using assms(1) by (simp add: run_etl_pipeline_def same)
  moreover have "stg_retail_sales (db_at_extraction e mode db) = []"
    "dq_quarantine_sales (db_at_extraction e mode db) = []"
    "dq_metrics (db_at_extraction e mode db) = []"
    "meta_etl_batch_log (db_at_extraction e mode db) = []"
    by (simp_all add: db_at_extraction_def get_last_tables c)
  ultimately show ?thesis
    using run_as_process [OF assms(1)] by simp
qed

theorem destructive_refresh_witness:
  "connect_ok sample_env \<and> sql_ok sample_env (executed loaded_db + 1) \<and>
   sql_ok sample_env (executed loaded_db + 2) \<and> sql_ok sample_env (executed loaded_db + 3) \<and>
   sql_ok sample_env (executed loaded_db + 4) \<and>
   stg_retail_sales loaded_db \<noteq> [] \<and> meta_etl_batch_log loaded_db \<noteq> [] \<and>
   stg_retail_sales (db_at_extraction sample_env ''incremental'' loaded_db) = [] \<and>
   meta_etl_batch_log (db_at_extraction sample_env ''incremental'' loaded_db) = [] \<and>
   stg_retail_sales (db_at_extraction sample_env ''full'' loaded_db) = [] \<and>
   meta_etl_batch_log (db_at_extraction sample_env ''full'' loaded_db) = [] \<and>
   run_etl_pipeline sample_env ''incremental'' loaded_db =
     run_etl_pipeline sample_env ''incremental'' (emptied loaded_db)"
proof -
  have h: "connect_ok sample_env" "sql_ok sample_env (executed loaded_db + 1)"
    "sql_ok sample_env (executed loaded_db + 2)" "sql_ok sample_env (executed loaded_db + 3)"
    "sql_ok sample_env (executed loaded_db + 4)"
    by (simp_all add: sample_env_def)
  have l: "stg_retail_sales loaded_db \<noteq> []" "meta_etl_batch_log loaded_db \<noteq> []"
    by (simp_all add: loaded_db_def)
  from destructive_refresh [OF h, of "''incremental''"] destructive_refresh [OF h, of "''full''"] h l
  show ?thesis by blast
qed

section \<open>The exit status\<close>

text \<open>
  C9.  With the CSV file missing the run fails, and the process still ends with status 0:
  the script drops the result of \<^verbatim>\<open>run_etl_pipeline\<close>.  \<^verbatim>\<open>run_full_pipeline.py\<close>, which
  reads the status, takes the failed step for a success.
\<close>

theorem exit_status_of_failed_run:
  "fst (run_etl_pipeline (sample_env\<lparr>csv_file := None\<rparr>) ''full'' empty_db) = False \<and>
   fst (etl_pipeline_main (sample_env\<lparr>csv_file := None\<rparr>) None empty_db) = 0 \<and>
   etl_step_succeeded (sample_env\<lparr>csv_file := None\<rparr>) empty_db = True"
  by (simp add: etl_step_succeeded_def run_command_def etl_pipeline_main_def parse_arguments_def
        run_etl_pipeline_def process_extracted_def pipeline_failed_def extract_data_def
        sample_env_def Let_def)

section \<open>Row conservation\<close>

lemma new_tracker_simps:
  "metrics (DataQualityTracker b) = []"
  "quarantine_records (DataQualityTracker b) = []"
  "tracker_batch_id (DataQualityTracker b) = b"
  by (simp_all add: DataQualityTracker_def)

lemma dropped_count_Nil: "dropped_count [] = 0"
  by (simp add: dropped_count_def)

lemma failed_log_conserved:
  assumes "sql_ok e (executed db)"
    and "stg_retail_sales db = []" and "dq_quarantine_sales db = []"
    and "dq_metrics db = []" and "meta_etl_batch_log db = []"
  shows "batch_conserved (snd (log_batch_execution e st 0 0 0 msg db))"
  using assms by (simp add: batch_conserved_def log_batch_execution_simps dropped_count_Nil)

lemma process_extracted_conserved:
  assumes ok: "\<forall>n. sql_ok e n"
    and empty: "stg_retail_sales db = []" "dq_quarantine_sales db = []"
      "dq_metrics db = []" "meta_etl_batch_log db = []"
  shows "batch_conserved (snd (process_extracted e x db))"
proof (cases x)
  case None
  then show ?thesis
    using failed_log_conserved [OF _ empty] ok
    by (simp add: process_extracted_def pipeline_failed_def)
next
  case (Some df)
  show ?thesis
  proof (cases "df = []")
    case True
    with Some show ?thesis
      using failed_log_conserved [OF _ empty] ok by (simp add: process_extracted_def)
  next
    case False
    obtain res t where tr: "transform_data e df (DataQualityTracker (run_batch_id e)) = (res, t)"
      by (cases "transform_data e df (DataQualityTracker (run_batch_id e))")
    show ?thesis
    proof (cases res)
      case (Inl ex)
      with Some False tr show ?thesis
        using failed_log_conserved [OF _ empty] ok
        by (simp add: process_extracted_def pipeline_failed_def)
    next
      case (Inr out)
      let ?t0 = "DataQualityTracker (run_batch_id e)"
      have f: "fst (transform_data e df ?t0) = Inr out" and s: "snd (transform_data e df ?t0) = t"
        using tr Inr by simp_all
      have "int (length df) = int (length out)
           + int (length (new_quarantine ?t0 (snd (transform_data e df ?t0))))
           + dropped_count (new_metrics ?t0 (snd (transform_data e df ?t0)))"
        using f by (rule transform_conserves)
      then have cons: "int (length df) =
          int (length out) + int (length (quarantine_records t)) + dropped_count (metrics t)"
        by (simp add: s new_quarantine_def new_metrics_def new_tracker_simps)
      let ?db1 = "snd (load_to_staging e out db)"
      let ?db2 = "snd (load_quarantine e t ?db1)"
      let ?db3 = "snd (load_dq_metrics e t ?db2)"
      have pe: "process_extracted e x db =
          (True, snd (log_batch_execution e ''SUCCESS'' (int (length df)) (int (length out))
                              (int (length (quarantine_records t))) None ?db3))"
        using Some False tr Inr
        by (simp add: process_extracted_def Let_def split_def load_to_staging_all_ok [OF ok]
              load_quarantine_all_ok [OF ok] load_dq_metrics_all_ok [OF ok])
      have tabs: "stg_retail_sales ?db3 = map df_load out" "dq_quarantine_sales ?db3 = quarantine_records t"
        "dq_metrics ?db3 = metrics t" "meta_etl_batch_log ?db3 = []"
        by (simp_all add: load_to_staging_all_ok [OF ok] load_quarantine_all_ok [OF ok]
              load_dq_metrics_all_ok [OF ok] loads_batch_log empty)
      show ?thesis
        using ok cons by (simp add: pe batch_conserved_def log_batch_execution_simps tabs)
    qed
  qed
qed

lemma extraction_tables_empty:
  assumes "\<forall>n. sql_ok e n"
  shows "stg_retail_sales (db_at_extraction e mode db) = []"
    and "dq_quarantine_sales (db_at_extraction e mode db) = []"
    and "dq_metrics (db_at_extraction e mode db) = []"
    and "meta_etl_batch_log (db_at_extraction e mode db) = []"
  using create_tables_eq [of e db] assms
  by (simp_all add: db_at_extraction_def get_last_tables)

lemma run_conserved:
  assumes "connect_ok e" and "\<forall>n. sql_ok e n"
  shows "batch_conserved (snd (run_etl_pipeline e mode db))"
  using process_extracted_conserved [OF assms(2) extraction_tables_empty [OF assms(2)]]
  by (simp add: run_as_process [OF assms(1)])

lemma run_rows_extracted:
  assumes "connect_ok e" and "\<forall>n. sql_ok e n"
    and "extracted_frame e mode db = Some df" and "fst (run_etl_pipeline e mode db)"
  shows "rows_extracted (hd (meta_etl_batch_log (snd (run_etl_pipeline e mode db)))) = int (length df)"
proof -
  let ?d = "db_at_extraction e mode db"
  have run: "run_etl_pipeline e mode db = process_extracted e (Some df) ?d"
    using run_as_process [OF assms(1)] assms(3) by simp
  have "meta_etl_batch_log (snd (process_extracted e (Some df) ?d)) =
      meta_etl_batch_log ?d @ [final_record e (Some df) (fst (process_extracted e (Some df) ?d))]"
    using assms(2) by (intro process_extracted_batch_log) simp
  then have log: "meta_etl_batch_log (snd (run_etl_pipeline e mode db)) =
      [final_record e (Some df) True]"
    using assms(4) by (simp add: run extraction_tables_empty [OF assms(2)])
  have "fst (process_extracted e (Some df) ?d)" using assms(4) run by simp
  then have "rows_extracted (final_record e (Some df) True) = int (length df)"
    by (auto simp add: process_extracted_def final_record_def pipeline_failed_def Let_def split_def
          split: if_splits sum.splits prod.splits)
  with log show ?thesis by simp
qed


subsection \<open>Runs on which conservation fails\<close>

lemma refused_quarantine_run:
  "(case run_etl_pipeline refused_quarantine_env ''full'' empty_db of
      (ok, d) \<Rightarrow> (ok, length (stg_retail_sales d), length (dq_quarantine_sales d),
                   dropped_count (dq_metrics d), meta_etl_batch_log d)) =
   (False, 1, 0, 0,
    [\<lparr>b_batch_id = ''20240102_030405'', status = ''FAILED'', rows_extracted = 0,
      rows_loaded_staging = 0, b_rows_quarantined = 0,
      error_message = Some ''Loading failed''\<rparr>])"
  by code_simp

lemma bad_customer_run:
  "(case run_etl_pipeline bad_customer_env ''full'' empty_db of
      (ok, d) \<Rightarrow> (ok, meta_etl_batch_log d)) =
   (False,
    [\<lparr>b_batch_id = ''20240102_030405'', status = ''FAILED'', rows_extracted = 0,
      rows_loaded_staging = 0, b_rows_quarantined = 0,
      error_message = Some ''cannot safely cast non-equivalent float64 to int64''\<rparr>])"
  by code_simp

text \<open>
  C1, as stated for every batch run, fails.  With the INSERT into the quarantine table
  refused, the run on a CSV file of two rows (a sale and a row of quantity 0) ends FAILED:
  its batch record counts 0 rows extracted, staged and quarantined, while the staging
  table holds the sale, the quarantine table nothing, and no metric reports a dropped
  row; two rows were extracted.  With a customer id that is not a whole number the
  transformation raises, and the batch record counts 0 rows extracted though two were.
\<close>

theorem partial_load_not_conserved_counterexample:
  "extracted_frame refused_quarantine_env ''full'' empty_db = Some [row_sale, row_zero_qty] \<and>
   fst (run_etl_pipeline refused_quarantine_env ''full'' empty_db) = False \<and>
   meta_etl_batch_log (snd (run_etl_pipeline refused_quarantine_env ''full'' empty_db)) =
     [\<lparr>b_batch_id = ''20240102_030405'', status = ''FAILED'', rows_extracted = 0,
       rows_loaded_staging = 0, b_rows_quarantined = 0,
       error_message = Some ''Loading failed''\<rparr>] \<and>
   length (stg_retail_sales (snd (run_etl_pipeline refused_quarantine_env ''full'' empty_db))) = 1 \<and>
   length (dq_quarantine_sales (snd (run_etl_pipeline refused_quarantine_env ''full'' empty_db))) = 0 \<and>
   dropped_count (dq_metrics (snd (run_etl_pipeline refused_quarantine_env ''full'' empty_db))) = 0 \<and>
   \<not> batch_conserved (snd (run_etl_pipeline refused_quarantine_env ''full'' empty_db)) \<and>
   extracted_frame bad_customer_env ''full'' empty_db = Some [row_sale, row_half_customer] \<and>
   fst (run_etl_pipeline bad_customer_env ''full'' empty_db) = False \<and>
   meta_etl_batch_log (snd (run_etl_pipeline bad_customer_env ''full'' empty_db)) =
     [\<lparr>b_batch_id = ''20240102_030405'', status = ''FAILED'', rows_extracted = 0,
       rows_loaded_staging = 0, b_rows_quarantined = 0,
       error_message = Some ''cannot safely cast non-equivalent float64 to int64''\<rparr>]"
proof -
  obtain ok d where r: "run_etl_pipeline refused_quarantine_env ''full'' empty_db = (ok, d)"
    by (cases "run_etl_pipeline refused_quarantine_env ''full'' empty_db")
  obtain ok' d' where r': "run_etl_pipeline bad_customer_env ''full'' empty_db = (ok', d')"
    by (cases "run_etl_pipeline bad_customer_env ''full'' empty_db")
  have a: "ok = False" "length (stg_retail_sales d) = 1" "length (dq_quarantine_sales d) = 0"
    "dropped_count (dq_metrics d) = 0"
    "meta_etl_batch_log d =
       [\<lparr>b_batch_id = ''20240102_030405'', status = ''FAILED'', rows_extracted = 0,
         rows_loaded_staging = 0, b_rows_quarantined = 0,
         error_message = Some ''Loading failed''\<rparr>]"
    using refused_quarantine_run by (simp_all add: r)
  have b: "ok' = False"
    "meta_etl_batch_log d' =
       [\<lparr>b_batch_id = ''20240102_030405'', status = ''FAILED'', rows_extracted = 0,
         rows_loaded_staging = 0, b_rows_quarantined = 0,
         error_message = Some ''cannot safely cast non-equivalent float64 to int64''\<rparr>]"
    using bad_customer_run by (simp_all add: r')
  have n: "\<not> batch_conserved d"
    using a by (auto simp add: batch_conserved_def)
  have x: "extracted_frame refused_quarantine_env ''full'' empty_db = Some [row_sale, row_zero_qty]"
    "extracted_frame bad_customer_env ''full'' empty_db = Some [row_sale, row_half_customer]"
    by (simp_all add: extracted_frame_def extract_data_def refused_quarantine_env_def
          bad_customer_env_def)
  show ?thesis
    using a b n x by (simp add: r r')
qed

subsection \<open>Conservation\<close>

text \<open>
  C1, amended.  Each of the seven rules conserves rows: the size of the frame before it is
  the size after it plus the rejections it reports (none when it adds no metric).  Over a
  transformation that returns, the rows that came in are the rows staged plus the records
  added to the quarantine plus the rows the added metrics report as dropped.  For a run
  that has its connection, on a database that executes every statement, the tables hold
  afterwards one batch record whose rows\_extracted is rows\_loaded\_staging plus
  rows\_quarantined plus the dropped rows of the metrics table, the two counts being the
  sizes of the staging and the quarantine table; when the run succeeds rows\_extracted is
  the size of the extracted frame.
\<close>

theorem row_conservation:
  "stage_conserves df1 t (remove_unparseable_dates df1 t) \<and>
   stage_conserves df t (quarantine_suspicious_unit_price e df t) \<and>
   stage_conserves df t (quarantine_zero_quantity e df t) \<and>
   stage_conserves df t (quarantine_negative_unit_price e df t) \<and>
   stage_conserves df t (remove_all_null_rows df t) \<and>
   stage_conserves df t (remove_exact_duplicates df t) \<and>
   stage_conserves df t (remove_missing_critical df t) \<and>
   (fst (transform_data e raw t) = Inr out \<longrightarrow>
      int (length raw) =
        int (length out) + int (length (new_quarantine t (snd (transform_data e raw t)))) +
        dropped_count (new_metrics t (snd (transform_data e raw t)))) \<and>
   (connect_ok e \<and> (\<forall>n. sql_ok e n) \<longrightarrow>
      batch_conserved (snd (run_etl_pipeline e mode db)) \<and>
      (\<forall>x. extracted_frame e mode db = Some x \<and> fst (run_etl_pipeline e mode db) \<longrightarrow>
         rows_extracted (hd (meta_etl_batch_log (snd (run_etl_pipeline e mode db)))) =
           int (length x)))"
proof -
  have 1: "stage_conserves df1 t (remove_unparseable_dates df1 t)"
    by (rule stage_conserves_intro) (simp_all add: rule_simps)
  have 2: "stage_conserves df t (quarantine_suspicious_unit_price e df t)"
    by (rule stage_conserves_intro) (simp_all add: rule_simps)
  have 3: "stage_conserves df t (quarantine_zero_quantity e df t)"
    by (rule stage_conserves_intro) (simp_all add: rule_simps)
  have 4: "stage_conserves df t (quarantine_negative_unit_price e df t)"
    by (rule stage_conserves_intro) (simp_all add: rule_simps)
  have 5: "stage_conserves df t (remove_all_null_rows df t)"
    by (rule stage_conserves_intro) (simp_all add: rule_simps)
  have 6: "stage_conserves df t (remove_exact_duplicates df t)"
    by (rule stage_conserves_intro) (simp_all add: rule_simps length_drop_duplicates)
  have 7: "stage_conserves df t (remove_missing_critical df t)"
    by (rule stage_conserves_intro) (simp_all add: rule_simps)
  have 8: "fst (transform_data e raw t) = Inr out \<longrightarrow>
      int (length raw) =
        int (length out) + int (length (new_quarantine t (snd (transform_data e raw t)))) +
        dropped_count (new_metrics t (snd (transform_data e raw t)))"
    using transform_conserves [of e raw t out] by blast
  have 9: "connect_ok e \<and> (\<forall>n. sql_ok e n) \<longrightarrow>
      batch_conserved (snd (run_etl_pipeline e mode db)) \<and>
      (\<forall>x. extracted_frame e mode db = Some x \<and> fst (run_etl_pipeline e mode db) \<longrightarrow>
         rows_extracted (hd (meta_etl_batch_log (snd (run_etl_pipeline e mode db)))) =
           int (length x))"
    using run_conserved [of e mode db] run_rows_extracted [of e mode db] by blast
  show ?thesis
    by (intro conjI 1 2 3 4 5 6 7 8 9)
qed

lemma sample_rows_transform:
  "fst (transform_data sample_env sample_rows t) =
     Inr (map (classify (tracker_batch_id t)) (survivors sample_env sample_rows))"
  by (simp add: fst_transform_data sample_rows_castable) (simp add: sample_rows_def)

lemma sample_frame_extracted:
  "extracted_frame sample_env ''full'' empty_db = Some sample_rows"
  by (simp add: extracted_frame_def extract_data_def sample_env_def)

theorem row_conservation_witness:
  "fst (transform_data sample_env sample_rows (DataQualityTracker ''B'')) =
     Inr (map (classify ''B'') (survivors sample_env sample_rows)) \<and>
   int (length sample_rows) =
     int (length (map (classify ''B'') (survivors sample_env sample_rows))) +
     int (length (new_quarantine (DataQualityTracker ''B'')
            (snd (transform_data sample_env sample_rows (DataQualityTracker ''B''))))) +
     dropped_count (new_metrics (DataQualityTracker ''B'')
            (snd (transform_data sample_env sample_rows (DataQualityTracker ''B'')))) \<and>
   connect_ok sample_env \<and> (\<forall>n. sql_ok sample_env n) \<and>
   batch_conserved (snd (run_etl_pipeline sample_env ''full'' empty_db))"
proof -
  have h1: "fst (transform_data sample_env sample_rows (DataQualityTracker ''B'')) =
     Inr (map (classify ''B'') (survivors sample_env sample_rows))"
    by (simp add: sample_rows_transform new_tracker_simps)
  have h2: "connect_ok sample_env" "\<forall>n. sql_ok sample_env n"
    by (simp_all add: sample_env_def)
  from row_conservation [of "[]" "DataQualityTracker ''B''" "[]" sample_env sample_rows
      "map (classify ''B'') (survivors sample_env sample_rows)" "''full''" empty_db] h1 h2
  show ?thesis by blast
qed

section \<open>Incremental runs\<close>

text \<open>
  C2.  The database holds a batch logged as SUCCESS whose greatest staged invoice date is
  the sample date, and the CSV file holds one row of that same date, so no row is newer.
  The cursor query on that database finds the date and the incremental extraction with
  it returns no row; but the incremental run has dropped the tables before it asks, finds
  no batch, extracts the row and loads it again, a SUCCESS with rows\_extracted = 1.
\<close>

theorem incremental_run_reloads_old_row:
  "fst (get_last_successful_batch_timestamp static_csv_env loaded_db) = Some 1291191960 \<and>
   extract_data_incremental static_csv_env (Some 1291191960) = Some [] \<and>
   fst (run_etl_pipeline static_csv_env ''incremental'' loaded_db) = True \<and>
   meta_etl_batch_log (snd (run_etl_pipeline static_csv_env ''incremental'' loaded_db)) =
     [\<lparr>b_batch_id = ''20240102_030405'', status = ''SUCCESS'', rows_extracted = 1,
       rows_loaded_staging = 1, b_rows_quarantined = 0, error_message = None\<rparr>]"
proof -
  have 1: "fst (get_last_successful_batch_timestamp static_csv_env loaded_db) = Some 1291191960"
    by code_simp
  have 2: "extract_data_incremental static_csv_env (Some 1291191960) = Some []"
    by code_simp
  have 3: "fst (run_etl_pipeline static_csv_env ''incremental'' loaded_db) = True"
    by code_simp
  have 4: "meta_etl_batch_log (snd (run_etl_pipeline static_csv_env ''incremental'' loaded_db)) =
     [\<lparr>b_batch_id = ''20240102_030405'', status = ''SUCCESS'', rows_extracted = 1,
       rows_loaded_staging = 1, b_rows_quarantined = 0, error_message = None\<rparr>]"
    by code_simp
  from 1 2 3 4 show ?thesis by (intro conjI)
qed

end
